theory Spec2Isabelle
  imports Complex_Main "HOL-Library.Sublist"
begin

section \<open>The Figma-to-code generator: a shallow embedding of \<open>code-generator.ts\<close>\<close>

text \<open>
  The file \<^verbatim>\<open>src/utils/code-generator.ts\<close> holds two classes: the class
  \<^verbatim>\<open>CodeGenerator\<close> (one node in, one component out) and the class
  \<^verbatim>\<open>AdvancedCodeGenerator\<close> (a whole Figma document in, a list of components out).
  Functions of \<^verbatim>\<open>AdvancedCodeGenerator\<close> keep their names; functions of
  \<^verbatim>\<open>CodeGenerator\<close> carry the prefix \<open>CodeGenerator_\<close>.

  Modelling decisions.
  \<^item> A JavaScript string is a \<open>string\<close>, a character a code unit below 256; case mapping
    is the ASCII one (a character above 127 has no case).
  \<^item> A JavaScript number is a \<open>rat\<close>: arithmetic is exact, \<^verbatim>\<open>Math.round(x)\<close> is
    \<open>\<lfloor>x + 1/2\<rfloor>\<close>. Where the code multiplies or divides doubles (a colour channel
    times 255), the double can round where the rational does not; no statement below
    depends on such a digit. The conversion of a number to a string (template literals,
    \<^verbatim>\<open>toString\<close>) is a parameter \<open>ns\<close> of every function that prints a number.
  \<^item> An optional property \<^verbatim>\<open>p?: T\<close> is a \<open>T option\<close>; the truthiness tests of the
    source (\<^verbatim>\<open>if (node.itemSpacing)\<close>) are written out.
  \<^item> \<^verbatim>\<open>Date.now()\<close> reads a clock: a function from the number of the reading to the
    time, and a counter of the readings made so far.
  \<^item> A thrown exception is the left summand of \<open>error + 'a\<close>.
\<close>

subsection \<open>Characters and strings\<close>

definition isDigit :: "char \<Rightarrow> bool" where
  "isDigit c = (48 \<le> (of_char c :: nat) \<and> (of_char c :: nat) \<le> 57)"

definition isUpper :: "char \<Rightarrow> bool" where
  "isUpper c = (65 \<le> (of_char c :: nat) \<and> (of_char c :: nat) \<le> 90)"

definition isLower :: "char \<Rightarrow> bool" where
  "isLower c = (97 \<le> (of_char c :: nat) \<and> (of_char c :: nat) \<le> 122)"

text \<open>The character class \<^verbatim>\<open>[a-zA-Z0-9]\<close>.\<close>

definition isAlnum :: "char \<Rightarrow> bool" where
  "isAlnum c = (isLower c \<or> isUpper c \<or> isDigit c)"

text \<open>The characters that \<^verbatim>\<open>.\<close> does not match.\<close>

definition isLineTerminator :: "char \<Rightarrow> bool" where
  "isLineTerminator c = (c = CHR 0x0A \<or> c = CHR 0x0D)"

text \<open>
  The character class \<^verbatim>\<open>\s\<close> on the characters a \<open>char\<close> can be: tab to carriage
  return, the space and the no-break space (code 160).
\<close>

definition isSpace :: "char \<Rightarrow> bool" where
  "isSpace c =
     ((9 \<le> (of_char c :: nat) \<and> (of_char c :: nat) \<le> 13) \<or> c = CHR '' '' \<or> c = CHR 0xA0)"

definition toUpper :: "char \<Rightarrow> char" where
  "toUpper c = (if isLower c then char_of ((of_char c :: nat) - 32) else c)"

definition toLower :: "char \<Rightarrow> char" where
  "toLower c = (if isUpper c then char_of ((of_char c :: nat) + 32) else c)"

definition toUpperCase :: "string \<Rightarrow> string" where
  "toUpperCase s = map toUpper s"

definition toLowerCase :: "string \<Rightarrow> string" where
  "toLowerCase s = map toLower s"

text \<open>\<^verbatim>\<open>s.includes(sub)\<close>\<close>

fun str_includes :: "string \<Rightarrow> string \<Rightarrow> bool" where
  "str_includes [] sub = (sub = [])"
| "str_includes (c # cs) sub = (prefix sub (c # cs) \<or> str_includes cs sub)"

text \<open>\<^verbatim>\<open>xs.join(sep)\<close>\<close>

fun join :: "string \<Rightarrow> string list \<Rightarrow> string" where
  "join sep [] = []"
| "join sep [x] = x"
| "join sep (x # y # ys) = x @ sep @ join sep (y # ys)"

text \<open>\<^verbatim>\<open>s.repeat(n)\<close>\<close>

fun repeat_str :: "string \<Rightarrow> nat \<Rightarrow> string" where
  "repeat_str s 0 = []"
| "repeat_str s (Suc n) = s @ repeat_str s n"

definition nl :: string where
  "nl = [CHR 0x0A]"

definition dq :: string where
  "dq = [CHR 0x22]"

definition sq :: string where
  "sq = [CHR 0x27]"

definition backtick :: string where
  "backtick = [CHR 0x60]"

text \<open>\<^verbatim>\<open>Math.round\<close>: to the nearest integer, a half towards \<open>+\<infinity>\<close>.\<close>

definition Math_round :: "rat \<Rightarrow> int" where
  "Math_round x = \<lfloor>x + 1 / 2\<rfloor>"

text \<open>
  Decimal digits of an integer. The closed examples below print integral numbers with
  \<open>integralToString\<close>, which is what JavaScript prints for them.
\<close>

fun natToString :: "nat \<Rightarrow> string" where
  "natToString n =
     (if n < 10 then [char_of (48 + n)]
      else natToString (n div 10) @ [char_of (48 + n mod 10)])"

declare natToString.simps [simp del]

definition intToString :: "int \<Rightarrow> string" where
  "intToString i = (if i < 0 then ''-'' @ natToString (nat (- i)) else natToString (nat i))"

definition integralToString :: "rat \<Rightarrow> string" where
  "integralToString q = intToString \<lfloor>q\<rfloor>"

subsection \<open>The data model (\<open>types/figma.ts\<close>)\<close>

record Color =
  color_r :: rat
  color_g :: rat
  color_b :: rat
  color_a :: "rat option"

record Paint =
  paint_type :: string

record Rectangle =
  rect_x :: rat
  rect_y :: rat
  width :: rat
  height :: rat

record LayoutConstraint =
  vertical :: string
  horizontal :: string

record Effect =
  effect_type :: string

record TypeStyle =
  fontFamily :: string
  fontSize :: rat

text \<open>
  A node is the record of its own properties (those that the generators read) and the
  optional list of its children.
\<close>

record NodeAttrs =
  node_id :: string
  node_name :: string
  node_type :: string
  backgroundColor :: "Color option"
  fills :: "Paint list option"
  cornerRadius :: "rat option"
  absoluteBoundingBox :: "Rectangle option"
  constraints :: "LayoutConstraint option"
  layoutMode :: "string option"
  itemSpacing :: "rat option"
  paddingLeft :: "rat option"
  paddingRight :: "rat option"
  paddingTop :: "rat option"
  paddingBottom :: "rat option"
  effects :: "Effect list option"
  characters :: "string option"
  style :: "TypeStyle option"

datatype FigmaNode = FigmaNode (attrs: NodeAttrs) (children: "FigmaNode list option")

record FigmaComponent =
  key :: string
  fc_name :: string

text \<open>
  \<open>components\<close> is the JavaScript object as \<^verbatim>\<open>Object.entries\<close> lists it: the pairs of
  property name and value, in property order.
\<close>

record FigmaApiResponse =
  document :: FigmaNode
  components :: "(string \<times> FigmaComponent) list option"

record CodeGenerationOptions =
  framework :: string
  styling :: string
  typescript :: bool
  accessibility :: bool
  responsive :: bool
  optimizeImages :: bool

record CustomCodeInputs =
  custom_jsx :: string
  custom_css :: string
  custom_cssAdvanced :: string

datatype IssueType = IssueError | IssueWarning | IssueInfo

record AccessibilityIssue =
  issue_type :: IssueType
  message :: string
  element :: string
  issue_fix :: string

datatype WcagCompliance = WcagAA | WcagA | WcagNonCompliant

record AccessibilityReport =
  score :: int
  issues :: "AccessibilityIssue list"
  suggestions :: "string list"
  wcagCompliance :: WcagCompliance

record ResponsiveBreakpoints =
  mobile :: string
  tablet :: string
  desktop :: string
  hasResponsiveDesign :: bool

datatype ComponentType = TButton | TCard | TText | TInput | TLayout | TComplex

datatype Complexity = CSimple | CMedium | CComplex

record ComponentMetadata =
  figmaNodeId :: string
  componentType :: ComponentType
  complexity :: Complexity
  estimatedAccuracy :: int
  generationTime :: int
  dependencies :: "string list"

record GeneratedComponent =
  gc_id :: string
  gc_name :: string
  gc_jsx :: string
  gc_css :: string
  gc_typescript :: "string option"
  gc_accessibility :: AccessibilityReport
  gc_responsive :: ResponsiveBreakpoints
  gc_metadata :: ComponentMetadata

record Prop =
  prop_name :: string
  prop_type :: string
  prop_optional :: bool

text \<open>The fields of an \<^verbatim>\<open>AdvancedCodeGenerator\<close> object.\<close>

record AdvancedCodeGenerator =
  figmaData :: FigmaApiResponse
  options :: CodeGenerationOptions
  customCode :: CustomCodeInputs

datatype error = ReferenceError string

subsection \<open>AdvancedCodeGenerator: construction\<close>

definition new_AdvancedCodeGenerator ::
  "FigmaApiResponse \<Rightarrow> CodeGenerationOptions \<Rightarrow> AdvancedCodeGenerator" where
  "new_AdvancedCodeGenerator fd opts =
     \<lparr>figmaData = fd, options = opts,
      customCode = \<lparr>custom_jsx = [], custom_css = [], custom_cssAdvanced = []\<rparr>\<rparr>"

definition setCustomCode :: "AdvancedCodeGenerator \<Rightarrow> CustomCodeInputs \<Rightarrow> AdvancedCodeGenerator" where
  "setCustomCode this cc = this\<lparr>customCode := cc\<rparr>"

subsection \<open>AdvancedCodeGenerator: the name sanitizer\<close>

text \<open>
  The three \<^verbatim>\<open>replace\<close> calls of \<^verbatim>\<open>sanitizeComponentName\<close>, one definition each:
  \<^verbatim>\<open>/[^a-zA-Z0-9]/g\<close> to the empty string, \<^verbatim>\<open>/^[0-9]/\<close> to \<^verbatim>\<open>'Component$&'\<close>,
  \<^verbatim>\<open>/^./\<close> to its upper case.
\<close>

definition stripNonAlnum :: "string \<Rightarrow> string" where
  "stripNonAlnum s = filter isAlnum s"

definition prefixLeadingDigit :: "string \<Rightarrow> string" where
  "prefixLeadingDigit s =
     (case s of [] \<Rightarrow> [] | c # cs \<Rightarrow> if isDigit c then ''Component'' @ c # cs else c # cs)"

definition upperFirst :: "string \<Rightarrow> string" where
  "upperFirst s =
     (case s of [] \<Rightarrow> []
      | c # cs \<Rightarrow> if isLineTerminator c then c # cs else toUpperCase [c] @ cs)"

definition sanitizeComponentName :: "string \<Rightarrow> string" where
  "sanitizeComponentName nm =
     (let r = upperFirst (prefixLeadingDigit (stripNonAlnum nm))
      in if r = [] then ''Component'' else r)"

subsection \<open>AdvancedCodeGenerator: utility methods\<close>

definition isImage :: "FigmaNode \<Rightarrow> bool" where
  "isImage node =
     (case fills (attrs node) of
        None \<Rightarrow> False
      | Some fs \<Rightarrow> list_ex (\<lambda>fill. paint_type fill = ''IMAGE'') fs)"

definition hasLinks :: "FigmaNode \<Rightarrow> bool" where
  "hasLinks node =
     (str_includes (toLowerCase (node_name (attrs node))) ''link'' \<or>
      str_includes (toLowerCase (node_name (attrs node))) ''button'')"

definition isInteractiveElement :: "FigmaNode \<Rightarrow> bool" where
  "isInteractiveElement node =
     (let name = toLowerCase (node_name (attrs node))
      in str_includes name ''button'' \<or> str_includes name ''link'' \<or>
         str_includes name ''input'' \<or> str_includes name ''click'')"

definition isHeading :: "FigmaNode \<Rightarrow> bool" where
  "isHeading node =
     (if node_type (attrs node) \<noteq> ''TEXT'' then False
      else let name = toLowerCase (node_name (attrs node))
           in str_includes name ''title'' \<or> str_includes name ''heading'' \<or>
              str_includes name ''header'' \<or>
              (case style (attrs node) of
                 None \<Rightarrow> False
               | Some st \<Rightarrow> fontSize st \<noteq> 0 \<and> fontSize st > 20))"

definition calculateContrastRatio :: "FigmaNode \<Rightarrow> rat" where
  "calculateContrastRatio node = 9 / 2"

definition colorToCSS :: "(rat \<Rightarrow> string) \<Rightarrow> Color \<Rightarrow> rat option \<Rightarrow> string" where
  "colorToCSS ns color opacity =
     (let alpha = (case opacity of
                     Some op \<Rightarrow> op
                   | None \<Rightarrow> (case color_a color of Some al \<Rightarrow> al | None \<Rightarrow> 1))
      in ''rgba('' @ ns (of_int (Math_round (color_r color * 255))) @ '', '' @
         ns (of_int (Math_round (color_g color * 255))) @ '', '' @
         ns (of_int (Math_round (color_b color * 255))) @ '', '' @ ns alpha @ '')'')"

definition colorToTailwind :: "Color \<Rightarrow> string" where
  "colorToTailwind color =
     (let cr = color_r color; cg = color_g color; cb = color_b color in
      if cr > 9 / 10 \<and> cg > 9 / 10 \<and> cb > 9 / 10 then ''bg-white''
      else if cr < 1 / 10 \<and> cg < 1 / 10 \<and> cb < 1 / 10 then ''bg-black''
      else if cr > 8 / 10 \<and> cg < 3 / 10 \<and> cb < 3 / 10 then ''bg-red-500''
      else if cr < 3 / 10 \<and> cg > 8 / 10 \<and> cb < 3 / 10 then ''bg-green-500''
      else if cr < 3 / 10 \<and> cg < 3 / 10 \<and> cb > 8 / 10 then ''bg-blue-500''
      else ''bg-gray-500'')"

definition pxToTailwindSpacing :: "(rat \<Rightarrow> string) \<Rightarrow> rat \<Rightarrow> string" where
  "pxToTailwindSpacing ns px =
     (let spacing = Math_round (px / 4) in
      if spacing \<le> 0 then ''0''
      else if spacing \<le> 96 then ns (of_int spacing)
      else ''['' @ ns px @ ''px]'')"

definition borderRadiusToTailwind :: "(rat \<Rightarrow> string) \<Rightarrow> rat \<Rightarrow> string" where
  "borderRadiusToTailwind ns radius =
     (if radius \<le> 2 then ''rounded-sm''
      else if radius \<le> 4 then ''rounded''
      else if radius \<le> 6 then ''rounded-md''
      else if radius \<le> 8 then ''rounded-lg''
      else if radius \<le> 12 then ''rounded-xl''
      else if radius \<le> 16 then ''rounded-2xl''
      else ''rounded-['' @ ns radius @ ''px]'')"

text \<open>
  \<^verbatim>\<open>str.replace(/([a-z0-9]|(?=[A-Z]))([A-Z])/g, '$1-$2').toLowerCase()\<close>: the second
  alternative of the first group is empty before any upper-case letter, so every upper-case
  letter gets a hyphen in front of it.
\<close>

definition camelToKebab :: "string \<Rightarrow> string" where
  "camelToKebab str = toLowerCase (concat (map (\<lambda>c. if isUpper c then [CHR ''-'', c] else [c]) str))"

definition generateResponsiveCSS :: "FigmaNode \<Rightarrow> string \<Rightarrow> string" where
  "generateResponsiveCSS node breakpoint = ''/* '' @ breakpoint @ '' responsive styles */''"

text \<open>\<^verbatim>\<open>if (v) classes.push(...f(v))\<close> for an optional number \<open>v\<close>: absent and \<open>0\<close> are falsy.\<close>

definition whenTruthy :: "rat option \<Rightarrow> (rat \<Rightarrow> 'a list) \<Rightarrow> 'a list" where
  "whenTruthy v f = (case v of None \<Rightarrow> [] | Some x \<Rightarrow> if x = 0 then [] else f x)"

subsection \<open>AdvancedCodeGenerator: metadata\<close>

definition detectComponentType :: "FigmaNode \<Rightarrow> ComponentType" where
  "detectComponentType node =
     (let name = toLowerCase (node_name (attrs node)) in
      if str_includes name ''button'' then TButton
      else if str_includes name ''card'' then TCard
      else if str_includes name ''text'' \<or> node_type (attrs node) = ''TEXT'' then TText
      else if str_includes name ''input'' then TInput
      else if (case children node of None \<Rightarrow> False | Some cs \<Rightarrow> length cs > 3) then TLayout
      else TComplex)"

definition calculateComplexity :: "FigmaNode \<Rightarrow> Complexity" where
  "calculateComplexity node =
     (let c0 = (0::nat);
          c1 = (case children node of None \<Rightarrow> c0 | Some cs \<Rightarrow> c0 + length cs);
          c2 = (case effects (attrs node) of
                  None \<Rightarrow> c1
                | Some es \<Rightarrow> if length es > 0 then c1 + 2 else c1);
          c3 = (case fills (attrs node) of
                  None \<Rightarrow> c2
                | Some fs \<Rightarrow> if length fs > 1 then c2 + 1 else c2)
      in if c3 \<le> 3 then CSimple else if c3 \<le> 8 then CMedium else CComplex)"

definition estimateAccuracy :: "FigmaNode \<Rightarrow> int" where
  "estimateAccuracy node =
     (let a0 = (85::int);
          a1 = (if calculateComplexity node = CSimple then a0 + 10 else a0);
          a2 = (if (case children node of None \<Rightarrow> False | Some cs \<Rightarrow> length cs > 5)
                then a1 - 5 else a1);
          a3 = (if detectComponentType node \<in> set [TButton, TText, TCard] then a2 + 5 else a2)
      in min 100 (max 70 a3))"

definition extractDependencies :: "AdvancedCodeGenerator \<Rightarrow> FigmaNode \<Rightarrow> string list" where
  "extractDependencies this node =
     [''react'', ''next''] @
     (if typescript (options this) then [''@types/react'', ''@types/node''] else []) @
     (if isImage node then [''next/image''] else []) @
     (if styling (options this) = ''styled-components'' then [''styled-components''] else [])"

definition generateMetadata :: "AdvancedCodeGenerator \<Rightarrow> FigmaNode \<Rightarrow> int \<Rightarrow> ComponentMetadata" where
  "generateMetadata this node genTime =
     \<lparr>figmaNodeId = node_id (attrs node),
      componentType = detectComponentType node,
      complexity = calculateComplexity node,
      estimatedAccuracy = estimateAccuracy node,
      generationTime = genTime,
      dependencies = extractDependencies this node\<rparr>"

subsection \<open>AdvancedCodeGenerator: styles and classes\<close>

text \<open>The array \<^verbatim>\<open>classes\<close> of \<^verbatim>\<open>generateTailwindClasses\<close> when the method returns.\<close>

definition tailwindClassList :: "(rat \<Rightarrow> string) \<Rightarrow> FigmaNode \<Rightarrow> string list" where
  "tailwindClassList ns node =
     (if layoutMode (attrs node) = Some ''HORIZONTAL'' then [''flex'', ''flex-row'']
      else if layoutMode (attrs node) = Some ''VERTICAL'' then [''flex'', ''flex-col'']
      else []) @
     whenTruthy (itemSpacing (attrs node)) (\<lambda>px. [''gap-'' @ pxToTailwindSpacing ns px]) @
     whenTruthy (paddingLeft (attrs node)) (\<lambda>px. [''pl-'' @ pxToTailwindSpacing ns px]) @
     whenTruthy (paddingRight (attrs node)) (\<lambda>px. [''pr-'' @ pxToTailwindSpacing ns px]) @
     whenTruthy (paddingTop (attrs node)) (\<lambda>px. [''pt-'' @ pxToTailwindSpacing ns px]) @
     whenTruthy (paddingBottom (attrs node)) (\<lambda>px. [''pb-'' @ pxToTailwindSpacing ns px]) @
     (case absoluteBoundingBox (attrs node) of
        None \<Rightarrow> []
      | Some box \<Rightarrow> [''w-['' @ ns (width box) @ ''px]'', ''h-['' @ ns (height box) @ ''px]'']) @
     (case backgroundColor (attrs node) of
        None \<Rightarrow> []
      | Some color \<Rightarrow> [colorToTailwind color]) @
     whenTruthy (cornerRadius (attrs node)) (\<lambda>radius. [borderRadiusToTailwind ns radius])"

definition generateTailwindClasses :: "(rat \<Rightarrow> string) \<Rightarrow> FigmaNode \<Rightarrow> string" where
  "generateTailwindClasses ns node = join '' '' (tailwindClassList ns node)"

text \<open>
  The object \<^verbatim>\<open>styles\<close> as \<^verbatim>\<open>Object.entries\<close> lists it: each key is assigned at most
  once, so the entries are in the order of the assignments.
\<close>

definition extractAllStyles :: "(rat \<Rightarrow> string) \<Rightarrow> FigmaNode \<Rightarrow> (string \<times> string) list" where
  "extractAllStyles ns node =
     (case absoluteBoundingBox (attrs node) of
        None \<Rightarrow> []
      | Some box \<Rightarrow> [(''width'', ns (width box) @ ''px''), (''height'', ns (height box) @ ''px'')]) @
     (case layoutMode (attrs node) of
        None \<Rightarrow> []
      | Some mode \<Rightarrow>
          if mode = [] then []
          else [(''display'', ''flex''),
                (''flexDirection'', if mode = ''HORIZONTAL'' then ''row'' else ''column'')] @
               whenTruthy (itemSpacing (attrs node)) (\<lambda>px. [(''gap'', ns px @ ''px'')])) @
     (case backgroundColor (attrs node) of
        None \<Rightarrow> []
      | Some color \<Rightarrow> [(''backgroundColor'', colorToCSS ns color None)]) @
     whenTruthy (cornerRadius (attrs node)) (\<lambda>radius. [(''borderRadius'', ns radius @ ''px'')])"

definition generateTailwindCSS :: "(rat \<Rightarrow> string) \<Rightarrow> FigmaNode \<Rightarrow> string" where
  "generateTailwindCSS ns node =
     (let classes = generateTailwindClasses ns node in
      ''/* Figma-based Tailwind classes: '' @ classes @ '' */'' @ nl @ nl @
      ''/* Component base styles */'' @ nl @
      ''.'' @ toLowerCase (sanitizeComponentName (node_name (attrs node))) @ '' {'' @ nl @
      ''  @apply '' @ classes @ '';'' @ nl @
      ''}'')"

definition convertToCSSRules :: "(string \<times> string) list \<Rightarrow> string \<Rightarrow> string" where
  "convertToCSSRules styles componentName =
     (let cssRules = join nl (map (\<lambda>(property, v). ''  '' @ camelToKebab property @ '': '' @ v @ '';'')
                                 styles)
      in ''.'' @ toLowerCase componentName @ '' {'' @ nl @ cssRules @ nl @ ''}'')"

definition generateCSSModules :: "string \<Rightarrow> string" where
  "generateCSSModules cssRules = cssRules"

definition generatePlainCSS :: "string \<Rightarrow> string \<Rightarrow> string" where
  "generatePlainCSS cssRules componentName = cssRules"

text \<open>\<^verbatim>\<open>s.replace(/^\.[^{]+\{/, '')\<close> and \<^verbatim>\<open>s.replace(/\}$/, '')\<close>\<close>

definition stripRuleHead :: "string \<Rightarrow> string" where
  "stripRuleHead s =
     (case s of
        [] \<Rightarrow> []
      | c # cs \<Rightarrow>
          if c = CHR ''.'' \<and> takeWhile (\<lambda>d. d \<noteq> CHR ''{'') cs \<noteq> [] \<and>
             dropWhile (\<lambda>d. d \<noteq> CHR ''{'') cs \<noteq> []
          then tl (dropWhile (\<lambda>d. d \<noteq> CHR ''{'') cs)
          else c # cs)"

definition stripRuleTail :: "string \<Rightarrow> string" where
  "stripRuleTail s = (if s \<noteq> [] \<and> last s = CHR ''}'' then butlast s else s)"

definition generateStyledComponents :: "string \<Rightarrow> string \<Rightarrow> string" where
  "generateStyledComponents cssRules componentName =
     ''import styled from '' @ sq @ ''styled-components'' @ sq @ nl @ nl @
     ''export const Styled'' @ componentName @ '' = styled.div'' @ backtick @ nl @
     stripRuleTail (stripRuleHead cssRules) @ nl @
     backtick"

definition generateCSS :: "(rat \<Rightarrow> string) \<Rightarrow> AdvancedCodeGenerator \<Rightarrow> FigmaNode \<Rightarrow> string \<Rightarrow> string" where
  "generateCSS ns this node componentName =
     (let baseCSS =
            (if styling (options this) = ''tailwind'' then generateTailwindCSS ns node
             else let styles = extractAllStyles ns node;
                      cssRules = convertToCSSRules styles componentName
                  in if styling (options this) = ''css-modules'' then generateCSSModules cssRules
                     else if styling (options this) = ''styled-components''
                     then generateStyledComponents cssRules componentName
                     else generatePlainCSS cssRules componentName);
          customCSSSection =
            (if custom_css (customCode this) \<noteq> []
             then nl @ nl @ ''/* === CUSTOM CSS STYLES === */'' @ nl @
                  custom_css (customCode this) @ nl @
                  ''/* === END CUSTOM CSS STYLES === */''
             else []);
          advancedCSSSection =
            (if custom_cssAdvanced (customCode this) \<noteq> []
             then nl @ nl @ ''/* === ADVANCED CSS++ FEATURES === */'' @ nl @
                  custom_cssAdvanced (customCode this) @ nl @
                  ''/* === END ADVANCED CSS++ FEATURES === */''
             else [])
      in baseCSS @ customCSSSection @ advancedCSSSection)"

text \<open>\<^verbatim>\<open>s.replace(/\s+/g, '-')\<close>: the flag says that the run of white space has begun.\<close>

fun replaceSpaceRuns :: "bool \<Rightarrow> string \<Rightarrow> string" where
  "replaceSpaceRuns inRun [] = []"
| "replaceSpaceRuns inRun (c # cs) =
     (if isSpace c then (if inRun then replaceSpaceRuns True cs
                         else CHR ''-'' # replaceSpaceRuns True cs)
      else c # replaceSpaceRuns False cs)"

definition generateClassName :: "(rat \<Rightarrow> string) \<Rightarrow> AdvancedCodeGenerator \<Rightarrow> FigmaNode \<Rightarrow> string" where
  "generateClassName ns this node =
     (if styling (options this) = ''tailwind'' then generateTailwindClasses ns node
      else filter (\<lambda>c. isLower c \<or> isDigit c \<or> c = CHR ''-'')
             (replaceSpaceRuns False (toLowerCase (node_name (attrs node)))))"

definition generateInlineStyles :: "(rat \<Rightarrow> string) \<Rightarrow> AdvancedCodeGenerator \<Rightarrow> FigmaNode \<Rightarrow> string" where
  "generateInlineStyles ns this node =
     (if styling (options this) = ''tailwind'' then []
      else let styles = extractAllStyles ns node;
               styleEntries = join '', '' (map (\<lambda>(k, v). k @ '': '' @ dq @ v @ dq) styles)
           in if styleEntries \<noteq> [] then ''{{ '' @ styleEntries @ '' }}'' else [])"

subsection \<open>AdvancedCodeGenerator: markup\<close>

definition extractProps :: "FigmaNode \<Rightarrow> Prop list" where
  "extractProps node =
     (if node_type (attrs node) = ''TEXT'' \<and>
         (case characters (attrs node) of None \<Rightarrow> False | Some t \<Rightarrow> t \<noteq> [])
      then [\<lparr>prop_name = ''children'', prop_type = ''React.ReactNode'', prop_optional = True\<rparr>]
      else []) @
     (if isImage node
      then [\<lparr>prop_name = ''src'', prop_type = ''string'', prop_optional = False\<rparr>,
            \<lparr>prop_name = ''alt'', prop_type = ''string'', prop_optional = False\<rparr>,
            \<lparr>prop_name = ''width'', prop_type = ''number'', prop_optional = False\<rparr>,
            \<lparr>prop_name = ''height'', prop_type = ''number'', prop_optional = False\<rparr>]
      else []) @
     [\<lparr>prop_name = ''className'', prop_type = ''string'', prop_optional = True\<rparr>]"

definition getNextJSTag :: "FigmaNode \<Rightarrow> string" where
  "getNextJSTag node =
     (if node_type (attrs node) = ''TEXT'' then (if isHeading node then ''h2'' else ''span'')
      else if node_type (attrs node) = ''FRAME'' then ''div''
      else if node_type (attrs node) = ''RECTANGLE'' then (if isImage node then ''Image'' else ''div'')
      else if node_type (attrs node) = ''COMPONENT'' \<or> node_type (attrs node) = ''INSTANCE''
      then ''div''
      else ''div'')"

definition generateNextJSAttributes :: "FigmaNode \<Rightarrow> string" where
  "generateNextJSAttributes node =
     (let attributes = (if isImage node
                        then [''src={src}'', ''alt={alt}'', ''width={width}'', ''height={height}'']
                        else [])
      in if length attributes > 0 then '' '' @ join '' '' attributes else [])"

definition generateJSXElement ::
  "FigmaNode \<Rightarrow> string \<Rightarrow> string \<Rightarrow> string \<Rightarrow> nat \<Rightarrow> string" where
  "generateJSXElement node className styles childrenText depth =
     (let indent = repeat_str ''  '' depth;
          tag = getNextJSTag node;
          attributes = generateNextJSAttributes node;
          opening = indent @ ''<'' @ tag @
            (if className \<noteq> [] then '' className='' @ dq @ className @ dq else []) @
            (if styles \<noteq> [] then '' style={'' @ styles @ ''}'' else []) @ attributes
      in case (if node_type (attrs node) = ''TEXT'' then characters (attrs node) else None) of
           Some (t # ts) \<Rightarrow>
             opening @ ''>'' @ nl @
             indent @ ''  {'' @ dq @ (t # ts) @ dq @ ''}'' @ nl @
             indent @ ''</'' @ tag @ ''>''
         | _ \<Rightarrow>
             if childrenText \<noteq> []
             then opening @ ''>'' @ nl @ childrenText @ nl @ indent @ ''</'' @ tag @ ''>''
             else opening @ '' />'')"

fun generateChildren :: "(rat \<Rightarrow> string) \<Rightarrow> AdvancedCodeGenerator \<Rightarrow> FigmaNode \<Rightarrow> string" where
  "generateChildren ns this (FigmaNode a cs) =
     (case cs of
        None \<Rightarrow> []
      | Some l \<Rightarrow>
          if length l = 0 then []
          else join nl (map (\<lambda>child.
                 generateJSXElement child (generateClassName ns this child)
                   (generateInlineStyles ns this child) (generateChildren ns this child) 2) l))"

definition generateNextJSImports :: "FigmaNode \<Rightarrow> string" where
  "generateNextJSImports node =
     join nl ([''import React from '' @ dq @ ''react'' @ dq] @
              (if isImage node then [''import Image from '' @ dq @ ''next/image'' @ dq] else []) @
              (if hasLinks node then [''import Link from '' @ dq @ ''next/link'' @ dq] else []))"

definition propLine :: "Prop \<Rightarrow> string" where
  "propLine p = prop_name p @ (if prop_optional p then ''?'' else []) @ '': '' @ prop_type p @ '';''"

definition generatePropsInterface :: "Prop list \<Rightarrow> string \<Rightarrow> string" where
  "generatePropsInterface props componentName =
     (if length props = 0 then []
      else ''interface '' @ componentName @ ''Props {'' @ nl @
           ''  '' @ join (nl @ ''  '') (map propLine props) @ nl @
           ''}'' @ nl @ nl)"

definition generateTypeScript :: "FigmaNode \<Rightarrow> string \<Rightarrow> string" where
  "generateTypeScript node componentName =
     (let props = extractProps node in
      ''export interface '' @ componentName @ ''Props {'' @ nl @
      ''  '' @ join (nl @ ''  '') (map propLine props) @ nl @
      ''}'' @ nl @ nl @
      ''export type '' @ componentName @ ''Ref = HTMLDivElement;'')"

text \<open>
  The last statement of \<^verbatim>\<open>generateJSX\<close> is \<^verbatim>\<open>return jsx\<close>, and no \<^verbatim>\<open>jsx\<close> is
  declared anywhere: evaluating it throws a \<^verbatim>\<open>ReferenceError\<close>.
\<close>

definition generateJSX ::
  "(rat \<Rightarrow> string) \<Rightarrow> AdvancedCodeGenerator \<Rightarrow> FigmaNode \<Rightarrow> string \<Rightarrow> error + string" where
  "generateJSX ns this node componentName =
     (let props = extractProps node;
          childrenText = generateChildren ns this node;
          className = generateClassName ns this node;
          styles = generateInlineStyles ns this node
      in if framework (options this) = ''react''
         then let imports = generateNextJSImports node;
                  propsInterface = (if typescript (options this)
                                    then generatePropsInterface props componentName else []);
                  componentSignature =
                    (if typescript (options this)
                     then ''export const '' @ componentName @ '': React.FC<'' @ componentName @
                          ''Props> = ({ '' @ join '', '' (map prop_name props) @ '' })''
                     else ''export const '' @ componentName @ '' = ({ '' @
                          join '', '' (map prop_name props) @ '' })'');
                  customJSXSection =
                    (if custom_jsx (customCode this) \<noteq> []
                     then nl @ ''  // === CUSTOM JSX CODE ==='' @ nl @
                          ''  '' @ custom_jsx (customCode this) @ nl @
                          ''  // === END CUSTOM JSX CODE ==='' @ nl
                     else [])
              in Inr (imports @ nl @
                      propsInterface @ nl @
                      componentSignature @ '' => {'' @ customJSXSection @ nl @
                      ''  return ('' @ nl @
                      ''    '' @ generateJSXElement node className styles childrenText 1 @ nl @
                      ''  )'' @ nl @
                      ''}'' @ nl @ nl @
                      ''export default '' @ componentName)
         else Inl (ReferenceError ''jsx is not defined''))"

subsection \<open>AdvancedCodeGenerator: the two reports\<close>

text \<open>
  \<^verbatim>\<open>analyzeAccessibility\<close> with the method that estimates the contrast as a parameter;
  the class calls \<^verbatim>\<open>this.calculateContrastRatio\<close>.
\<close>

definition analyzeAccessibilityWith :: "(FigmaNode \<Rightarrow> rat) \<Rightarrow> FigmaNode \<Rightarrow> AccessibilityReport" where
  "analyzeAccessibilityWith contrast node =
     (let issues0 = [];
          suggestions0 = [];
          score0 = (100::int);
          image = isImage node;
          issues1 = (if image
                     then issues0 @ [\<lparr>issue_type = IssueError, message = ''Image missing alt text'',
                                      element = node_name (attrs node),
                                      issue_fix = ''Add alt attribute with descriptive text''\<rparr>]
                     else issues0);
          score1 = (if image then score0 - 15 else score0);
          low = (node_type (attrs node) = ''TEXT'' \<and> contrast node < 9 / 2);
          issues2 = (if low
                     then issues1 @ [\<lparr>issue_type = IssueWarning, message = ''Low text contrast'',
                                      element = node_name (attrs node),
                                      issue_fix = ''Increase contrast between text and background''\<rparr>]
                     else issues1);
          score2 = (if low then score1 - 10 else score1);
          suggestions1 = (if isInteractiveElement node
                          then suggestions0 @ [''Ensure keyboard navigation support'',
                                               ''Add ARIA labels for screen readers'',
                                               ''Use proper focus states'']
                          else suggestions0)
      in \<lparr>score = max 0 score2,
          issues = issues2,
          suggestions = suggestions1,
          wcagCompliance = (if score2 \<ge> 80 then WcagAA
                            else if score2 \<ge> 60 then WcagA else WcagNonCompliant)\<rparr>)"

definition analyzeAccessibility :: "FigmaNode \<Rightarrow> AccessibilityReport" where
  "analyzeAccessibility node = analyzeAccessibilityWith calculateContrastRatio node"

text \<open>
  \<^verbatim>\<open>node.constraints?.horizontal\<close> is \<^verbatim>\<open>undefined\<close> on a node without constraints, and
  \<^verbatim>\<open>undefined !== 'LEFT'\<close> is true.
\<close>

definition analyzeResponsive :: "FigmaNode \<Rightarrow> ResponsiveBreakpoints" where
  "analyzeResponsive node =
     (let hasFlexLayout = (layoutMode (attrs node) = Some ''HORIZONTAL'' \<or>
                           layoutMode (attrs node) = Some ''VERTICAL'');
          hasConstraints = (map_option horizontal (constraints (attrs node)) \<noteq> Some ''LEFT'' \<or>
                            map_option vertical (constraints (attrs node)) \<noteq> Some ''TOP'');
          hasResponsive = (hasFlexLayout \<or> hasConstraints)
      in \<lparr>mobile = generateResponsiveCSS node ''mobile'',
          tablet = generateResponsiveCSS node ''tablet'',
          desktop = generateResponsiveCSS node ''desktop'',
          hasResponsiveDesign = hasResponsive\<rparr>)"

subsection \<open>AdvancedCodeGenerator: the entry point\<close>

text \<open>
  \<open>clock\<close> gives the value of each \<^verbatim>\<open>Date.now()\<close> of the call and \<open>t\<close> counts the
  readings made; \<^verbatim>\<open>generateSingleComponent\<close> reads the clock twice.
\<close>

definition generateSingleComponent ::
  "(rat \<Rightarrow> string) \<Rightarrow> AdvancedCodeGenerator \<Rightarrow> (nat \<Rightarrow> int) \<Rightarrow> nat \<Rightarrow> FigmaNode \<Rightarrow> string
     \<Rightarrow> error + (GeneratedComponent \<times> nat)" where
  "generateSingleComponent ns this clock t node componentName =
     (let startTime = clock t;
          sanitizedName = sanitizeComponentName componentName
      in case generateJSX ns this node sanitizedName of
           Inl e \<Rightarrow> Inl e
         | Inr jsx \<Rightarrow>
             let css = generateCSS ns this node sanitizedName;
                 accessibilityReport = analyzeAccessibility node;
                 responsiveReport = analyzeResponsive node;
                 metadata = generateMetadata this node (clock (t + 1) - startTime)
             in Inr (\<lparr>gc_id = node_id (attrs node),
                       gc_name = sanitizedName,
                       gc_jsx = jsx,
                       gc_css = css,
                       gc_typescript = (if typescript (options this)
                                        then Some (generateTypeScript node sanitizedName)
                                        else None),
                       gc_accessibility = accessibilityReport,
                       gc_responsive = responsiveReport,
                       gc_metadata = metadata\<rparr>, t + 2))"

fun search :: "string \<Rightarrow> FigmaNode \<Rightarrow> FigmaNode option"
  and search_children :: "string \<Rightarrow> FigmaNode list \<Rightarrow> FigmaNode option" where
  "search ident (FigmaNode a cs) =
     (if node_id a = ident then Some (FigmaNode a cs)
      else case cs of None \<Rightarrow> None | Some l \<Rightarrow> search_children ident l)"
| "search_children ident [] = None"
| "search_children ident (child # rest) =
     (case search ident child of
        Some found \<Rightarrow> Some found
      | None \<Rightarrow> search_children ident rest)"

definition findNodeById :: "AdvancedCodeGenerator \<Rightarrow> string \<Rightarrow> FigmaNode option" where
  "findNodeById this ident = search ident (document (figmaData this))"

fun traverse :: "FigmaNode \<Rightarrow> FigmaNode list" where
  "traverse (FigmaNode a cs) =
     (if node_type a = ''FRAME'' \<and> (case cs of None \<Rightarrow> False | Some l \<Rightarrow> length l > 0)
      then [FigmaNode a cs] else []) @
     (case cs of None \<Rightarrow> [] | Some l \<Rightarrow> concat (map traverse l))"

definition findMainFrames :: "FigmaNode \<Rightarrow> FigmaNode list" where
  "findMainFrames node = traverse node"

text \<open>
  The two \<^verbatim>\<open>forEach\<close> loops of \<^verbatim>\<open>generateComponents\<close>. The state of a loop is the array
  \<^verbatim>\<open>components\<close> and the number of clock readings; an exception ends the loop.
\<close>

fun generateDeclared ::
  "(rat \<Rightarrow> string) \<Rightarrow> AdvancedCodeGenerator \<Rightarrow> (nat \<Rightarrow> int) \<Rightarrow> (string \<times> FigmaComponent) list
     \<Rightarrow> GeneratedComponent list \<times> nat \<Rightarrow> error + (GeneratedComponent list \<times> nat)" where
  "generateDeclared ns this clock [] st = Inr st"
| "generateDeclared ns this clock ((k, component) # rest) (comps, t) =
     (case findNodeById this (key component) of
        None \<Rightarrow> generateDeclared ns this clock rest (comps, t)
      | Some node \<Rightarrow>
          (case generateSingleComponent ns this clock t node (fc_name component) of
             Inl e \<Rightarrow> Inl e
           | Inr (generatedComponent, t') \<Rightarrow>
               generateDeclared ns this clock rest (comps @ [generatedComponent], t')))"

fun generateFrames ::
  "(rat \<Rightarrow> string) \<Rightarrow> AdvancedCodeGenerator \<Rightarrow> (nat \<Rightarrow> int) \<Rightarrow> FigmaNode list
     \<Rightarrow> GeneratedComponent list \<times> nat \<Rightarrow> error + (GeneratedComponent list \<times> nat)" where
  "generateFrames ns this clock [] st = Inr st"
| "generateFrames ns this clock (frame # rest) (comps, t) =
     (case generateSingleComponent ns this clock t frame (node_name (attrs frame)) of
        Inl e \<Rightarrow> Inl e
      | Inr (generatedComponent, t') \<Rightarrow>
          generateFrames ns this clock rest (comps @ [generatedComponent], t'))"

definition generateComponents ::
  "(rat \<Rightarrow> string) \<Rightarrow> AdvancedCodeGenerator \<Rightarrow> (nat \<Rightarrow> int) \<Rightarrow> error + GeneratedComponent list" where
  "generateComponents ns this clock =
     (let entries = (case components (figmaData this) of None \<Rightarrow> [] | Some es \<Rightarrow> es)
      in case generateDeclared ns this clock entries ([], 0) of
           Inl e \<Rightarrow> Inl e
         | Inr (comps, t) \<Rightarrow>
             if length comps = 0
             then (case generateFrames ns this clock (findMainFrames (document (figmaData this)))
                          (comps, t) of
                     Inl e \<Rightarrow> Inl e
                   | Inr (comps', t') \<Rightarrow> Inr comps')
             else Inr comps)"

subsection \<open>CodeGenerator: the methods of the first class that the claims name\<close>

definition CodeGenerator_sanitizeComponentName :: "string \<Rightarrow> string" where
  "CodeGenerator_sanitizeComponentName nm = upperFirst (prefixLeadingDigit (stripNonAlnum nm))"

definition CodeGenerator_isInteractiveElement :: "FigmaNode \<Rightarrow> bool" where
  "CodeGenerator_isInteractiveElement node =
     (str_includes (toLowerCase (node_name (attrs node))) ''button'' \<or>
      str_includes (toLowerCase (node_name (attrs node))) ''link'' \<or>
      str_includes (toLowerCase (node_name (attrs node))) ''input'')"

definition CodeGenerator_analyzeAccessibility :: "FigmaNode \<Rightarrow> AccessibilityReport" where
  "CodeGenerator_analyzeAccessibility node =
     (let issues0 = [];
          suggestions0 = [];
          score0 = (100::int);
          image = (node_type (attrs node) = ''RECTANGLE'' \<and>
                   (case fills (attrs node) of
                      None \<Rightarrow> False
                    | Some fs \<Rightarrow> list_ex (\<lambda>f. paint_type f = ''IMAGE'') fs));
          issues1 = (if image
                     then issues0 @ [\<lparr>issue_type = IssueError, message = ''Image missing alt text'',
                                      element = node_name (attrs node),
                                      issue_fix = ''Add alt attribute with descriptive text''\<rparr>]
                     else issues0);
          score1 = (if image then score0 - 20 else score0);
          suggestions1 = (if node_type (attrs node) = ''TEXT''
                          then suggestions0 @ [''Verify text contrast meets WCAG AA standards'']
                          else suggestions0);
          suggestions2 = (if CodeGenerator_isInteractiveElement node
                          then suggestions1 @ [''Ensure keyboard navigation support'',
                                               ''Add ARIA labels for screen readers'']
                          else suggestions1)
      in \<lparr>score = score1,
          issues = issues1,
          suggestions = suggestions2,
          wcagCompliance = (if score1 \<ge> 80 then WcagAA
                            else if score1 \<ge> 60 then WcagA else WcagNonCompliant)\<rparr>)"

definition CodeGenerator_generateResponsiveCSS :: "FigmaNode \<Rightarrow> string \<Rightarrow> string" where
  "CodeGenerator_generateResponsiveCSS node breakpoint = ''/* '' @ breakpoint @ '' styles */''"

definition CodeGenerator_analyzeResponsive :: "FigmaNode \<Rightarrow> ResponsiveBreakpoints" where
  "CodeGenerator_analyzeResponsive node =
     (let hasFlexLayout = (layoutMode (attrs node) = Some ''HORIZONTAL'' \<or>
                           layoutMode (attrs node) = Some ''VERTICAL'');
          hasConstraints = (map_option horizontal (constraints (attrs node)) \<noteq> Some ''LEFT'' \<or>
                            map_option vertical (constraints (attrs node)) \<noteq> Some ''TOP'')
      in \<lparr>mobile = CodeGenerator_generateResponsiveCSS node ''mobile'',
          tablet = CodeGenerator_generateResponsiveCSS node ''tablet'',
          desktop = CodeGenerator_generateResponsiveCSS node ''desktop'',
          hasResponsiveDesign = (hasFlexLayout \<or> hasConstraints)\<rparr>)"

definition CodeGenerator_extractStyles :: "(rat \<Rightarrow> string) \<Rightarrow> FigmaNode \<Rightarrow> (string \<times> string) list" where
  "CodeGenerator_extractStyles ns node =
     (case absoluteBoundingBox (attrs node) of
        None \<Rightarrow> []
      | Some box \<Rightarrow> [(''width'', ns (width box) @ ''px''), (''height'', ns (height box) @ ''px'')]) @
     (case backgroundColor (attrs node) of
        None \<Rightarrow> []
      | Some color \<Rightarrow>
          [(''backgroundColor'',
            ''rgba('' @ ns (of_int (Math_round (color_r color * 255))) @ '', '' @
            ns (of_int (Math_round (color_g color * 255))) @ '', '' @
            ns (of_int (Math_round (color_b color * 255))) @ '', '' @
            (case color_a color of None \<Rightarrow> ''undefined'' | Some al \<Rightarrow> ns al) @ '')'')]) @
     whenTruthy (cornerRadius (attrs node)) (\<lambda>radius. [(''borderRadius'', ns radius @ ''px'')])"

subsection \<open>The sanitizer as the specification words it\<close>

text \<open>
  Section 4.1 of the specification: strip every character outside \<^verbatim>\<open>[A-Za-z0-9]\<close>; if the
  result starts with a digit, prefix it with the word Component; upper-case the first
  character; if the result is empty, return the default Component.
\<close>

definition sanitize_spec :: "string \<Rightarrow> string" where
  "sanitize_spec s =
     (let kept = filter isAlnum s in
      if kept = [] then ''Component''
      else let led = (if isDigit (hd kept) then ''Component'' @ kept else kept)
           in toUpper (hd led) # tl led)"

text \<open>The shape of a string that the three replacements leave as it is.\<close>

definition sanitized :: "string \<Rightarrow> bool" where
  "sanitized r =
     (case r of
        [] \<Rightarrow> True
      | c # cs \<Rightarrow> isAlnum c \<and> \<not> isDigit c \<and> toUpper c = c \<and> filter isAlnum cs = cs)"



subsection \<open>What a caller can observe of a call, the generation time apart\<close>

definition eraseGenerationTime :: "GeneratedComponent \<Rightarrow> GeneratedComponent" where
  "eraseGenerationTime c = c\<lparr>gc_metadata := (gc_metadata c)\<lparr>generationTime := 0\<rparr>\<rparr>"

definition observable :: "error + GeneratedComponent list \<Rightarrow> error + GeneratedComponent list" where
  "observable r = map_sum id (map eraseGenerationTime) r"

definition observableState ::
  "error + (GeneratedComponent list \<times> nat) \<Rightarrow> error + (GeneratedComponent list \<times> nat)" where
  "observableState r = map_sum id (map_prod (map eraseGenerationTime) id) r"

subsection \<open>Inputs of the examples\<close>

text \<open>A node that has none of the optional properties.\<close>

definition bareAttrs :: NodeAttrs where
  "bareAttrs =
     \<lparr>node_id = ''0:1'', node_name = ''Layer'', node_type = ''GROUP'',
      backgroundColor = None, fills = None, cornerRadius = None, absoluteBoundingBox = None,
      constraints = None, layoutMode = None, itemSpacing = None, paddingLeft = None,
      paddingRight = None, paddingTop = None, paddingBottom = None, effects = None,
      characters = None, style = None\<rparr>"

definition labelNode :: FigmaNode where
  "labelNode =
     FigmaNode (bareAttrs\<lparr>node_id := ''1:2'', node_name := ''Label'', node_type := ''TEXT'',
                          characters := Some ''Hello''\<rparr>) None"

text \<open>The item spacing, the four paddings and the corner radius, and how a node gets one of them.\<close>

datatype SpacingAttr =
  ItemSpacing | PaddingLeft | PaddingRight | PaddingTop | PaddingBottom | CornerRadius

fun setAttr :: "SpacingAttr \<Rightarrow> rat option \<Rightarrow> NodeAttrs \<Rightarrow> NodeAttrs" where
  "setAttr ItemSpacing v a = a\<lparr>itemSpacing := v\<rparr>"
| "setAttr PaddingLeft v a = a\<lparr>paddingLeft := v\<rparr>"
| "setAttr PaddingRight v a = a\<lparr>paddingRight := v\<rparr>"
| "setAttr PaddingTop v a = a\<lparr>paddingTop := v\<rparr>"
| "setAttr PaddingBottom v a = a\<lparr>paddingBottom := v\<rparr>"
| "setAttr CornerRadius v a = a\<lparr>cornerRadius := v\<rparr>"

text \<open>How the class token of a property starts, and the name of its style entry.\<close>

fun classPrefix :: "SpacingAttr \<Rightarrow> string" where
  "classPrefix ItemSpacing = ''gap-''"
| "classPrefix PaddingLeft = ''pl-''"
| "classPrefix PaddingRight = ''pr-''"
| "classPrefix PaddingTop = ''pt-''"
| "classPrefix PaddingBottom = ''pb-''"
| "classPrefix CornerRadius = ''rounded''"

fun styleKey :: "SpacingAttr \<Rightarrow> string" where
  "styleKey ItemSpacing = ''gap''"
| "styleKey PaddingLeft = ''paddingLeft''"
| "styleKey PaddingRight = ''paddingRight''"
| "styleKey PaddingTop = ''paddingTop''"
| "styleKey PaddingBottom = ''paddingBottom''"
| "styleKey CornerRadius = ''borderRadius''"

subsection \<open>Generators, options and documents that the statements name\<close>

definition withStyling :: "string \<Rightarrow> AdvancedCodeGenerator \<Rightarrow> AdvancedCodeGenerator" where
  "withStyling st this = this\<lparr>options := (options this)\<lparr>styling := st\<rparr>\<rparr>"

definition supportedStylings :: "string list" where
  "supportedStylings = [''tailwind'', ''css-modules'', ''styled-components'', ''plain-css'']"

definition declaredEntries :: "AdvancedCodeGenerator \<Rightarrow> (string \<times> FigmaComponent) list" where
  "declaredEntries this = (case components (figmaData this) of None \<Rightarrow> [] | Some es \<Rightarrow> es)"

definition resolves :: "AdvancedCodeGenerator \<Rightarrow> string \<times> FigmaComponent \<Rightarrow> bool" where
  "resolves this entry = (case findNodeById this (key (snd entry)) of None \<Rightarrow> False | Some node \<Rightarrow> True)"

definition withComponents ::
  "(string \<times> FigmaComponent) list \<Rightarrow> AdvancedCodeGenerator \<Rightarrow> AdvancedCodeGenerator" where
  "withComponents es this = this\<lparr>figmaData := (figmaData this)\<lparr>components := Some es\<rparr>\<rparr>"

text \<open>The declared components that resolve, each with the node it resolves to.\<close>

definition resolvedIn ::
  "AdvancedCodeGenerator \<Rightarrow> (string \<times> FigmaComponent) list \<Rightarrow> (FigmaNode \<times> FigmaComponent) list" where
  "resolvedIn this es =
     concat (map (\<lambda>entry. case findNodeById this (key (snd entry)) of
                              None \<Rightarrow> []
                            | Some node \<Rightarrow> [(node, snd entry)]) es)"

definition resolvedComponents :: "AdvancedCodeGenerator \<Rightarrow> (FigmaNode \<times> FigmaComponent) list" where
  "resolvedComponents this = resolvedIn this (declaredEntries this)"

definition cardFrame :: FigmaNode where
  "cardFrame =
     FigmaNode (bareAttrs\<lparr>node_id := ''1:1'', node_name := ''Card 1'', node_type := ''FRAME''\<rparr>)
       (Some [labelNode])"

definition cardDocument :: FigmaNode where
  "cardDocument =
     FigmaNode (bareAttrs\<lparr>node_id := ''0:0'', node_name := ''Document'', node_type := ''DOCUMENT''\<rparr>)
       (Some [cardFrame])"

definition reactOptions :: CodeGenerationOptions where
  "reactOptions =
     \<lparr>framework = ''react'', styling = ''tailwind'', typescript = False, accessibility = True,
      responsive = True, optimizeImages = False\<rparr>"

text \<open>
  A document that declares two components: no node has the key of the first, the key of
  the second is the id of the label.
\<close>

definition declaredData :: FigmaApiResponse where
  "declaredData =
     \<lparr>document = cardDocument,
      components = Some [(''a'', \<lparr>key = ''9:9'', fc_name = ''Missing''\<rparr>),
                         (''b'', \<lparr>key = ''1:2'', fc_name = ''My label''\<rparr>)]\<rparr>"

text \<open>Two generators that the methods below a single component cannot tell apart.\<close>

definition sameConfiguration :: "AdvancedCodeGenerator \<Rightarrow> AdvancedCodeGenerator \<Rightarrow> bool" where
  "sameConfiguration this this' =
     (framework (options this') = framework (options this) \<and>
      typescript (options this') = typescript (options this) \<and>
      (styling (options this') = ''tailwind'') = (styling (options this) = ''tailwind'') \<and>
      (styling (options this') = ''styled-components'') =
        (styling (options this) = ''styled-components'') \<and>
      customCode this' = customCode this)"

section \<open>Properties\<close>

subsection \<open>The name sanitizer\<close>

lemma isAlnum_toUpper: "isAlnum c \<Longrightarrow> isAlnum (toUpper c)"
  by (auto simp: isAlnum_def toUpper_def isLower_def isUpper_def isDigit_def)

lemma toUpper_not_digit: "isAlnum c \<Longrightarrow> \<not> isDigit c \<Longrightarrow> \<not> isDigit (toUpper c)"
  by (auto simp: isAlnum_def toUpper_def isLower_def isUpper_def isDigit_def)

lemma toUpper_idem: "toUpper (toUpper c) = toUpper c"
  by (auto simp: toUpper_def isLower_def)

lemma alnum_not_terminator: "isAlnum c \<Longrightarrow> \<not> isLineTerminator c"
  by (auto simp: isAlnum_def isLower_def isUpper_def isDigit_def isLineTerminator_def)

lemma Component_facts:
  "isAlnum CHR ''o''" "isAlnum CHR ''m''" "isAlnum CHR ''p''" "isAlnum CHR ''n''"
  "isAlnum CHR ''e''" "isAlnum CHR ''t''"
  "\<not> isDigit CHR ''C''" "toUpper CHR ''C'' = CHR ''C''" "isAlnum CHR ''C''"
  "\<not> isLineTerminator CHR ''C''"
  by code_simp+

lemma filter_alnum_Cons:
  assumes "filter isAlnum s = c # cs"
  shows "isAlnum c" and "filter isAlnum cs = cs"
proof -
  from assms have "set (c # cs) = {x \<in> set s. isAlnum x}"
    by (metis set_filter)
  then show "isAlnum c" and "filter isAlnum cs = cs"
    by (auto intro: filter_True)
qed

lemma sanitized_fixed:
  "sanitized r \<Longrightarrow> upperFirst (prefixLeadingDigit (stripNonAlnum r)) = r"
  by (cases r) (auto simp: sanitized_def upperFirst_def prefixLeadingDigit_def stripNonAlnum_def
      toUpperCase_def alnum_not_terminator)

lemma pipeline_sanitized: "sanitized (upperFirst (prefixLeadingDigit (stripNonAlnum s)))"
proof (cases "filter isAlnum s")
  case Nil
  then show ?thesis
    by (simp add: sanitized_def upperFirst_def prefixLeadingDigit_def stripNonAlnum_def)
next
  case (Cons c cs)
  note alnum = filter_alnum_Cons [OF Cons]
  show ?thesis
  proof (cases "isDigit c")
    case True
    then show ?thesis using Cons alnum
      by (simp add: sanitized_def upperFirst_def prefixLeadingDigit_def stripNonAlnum_def
          toUpperCase_def Component_facts)
  next
    case False
    then show ?thesis using Cons alnum
      by (simp add: sanitized_def upperFirst_def prefixLeadingDigit_def stripNonAlnum_def
          toUpperCase_def alnum_not_terminator isAlnum_toUpper toUpper_not_digit toUpper_idem)
  qed
qed

lemma sanitized_Component: "sanitized ''Component''"
  by (simp add: sanitized_def Component_facts)

text \<open>
  Claim C3. The name sanitizer is idempotent: sanitizing a sanitized name returns it
  unchanged. This holds for \<^verbatim>\<open>sanitizeComponentName\<close> of both classes.
\<close>

theorem sanitizeComponentName_idempotent:
  "sanitizeComponentName (sanitizeComponentName s) = sanitizeComponentName s \<and>
   CodeGenerator_sanitizeComponentName (CodeGenerator_sanitizeComponentName s) =
     CodeGenerator_sanitizeComponentName s"
proof -
  have shape: "sanitized (sanitizeComponentName s)"
    using pipeline_sanitized [of s] sanitized_Component
    by (simp add: sanitizeComponentName_def Let_def)
  have nonempty: "sanitizeComponentName s \<noteq> []"
    by (simp add: sanitizeComponentName_def Let_def)
  have "sanitizeComponentName (sanitizeComponentName s) = sanitizeComponentName s"
    using sanitized_fixed [OF shape] nonempty
    by (simp add: sanitizeComponentName_def [of "sanitizeComponentName s"] Let_def)
  moreover have "CodeGenerator_sanitizeComponentName (CodeGenerator_sanitizeComponentName s) =
     CodeGenerator_sanitizeComponentName s"
    using sanitized_fixed [OF pipeline_sanitized [of s]]
    by (simp add: CodeGenerator_sanitizeComponentName_def)
  ultimately show ?thesis by simp
qed

lemma sanitize_refines_spec: "sanitizeComponentName s = sanitize_spec s"
proof (cases "filter isAlnum s")
  case Nil
  then show ?thesis
    by (simp add: sanitizeComponentName_def sanitize_spec_def upperFirst_def
        prefixLeadingDigit_def stripNonAlnum_def)
next
  case (Cons c cs)
  note alnum = filter_alnum_Cons [OF Cons]
  show ?thesis using Cons alnum
    by (simp add: sanitizeComponentName_def sanitize_spec_def upperFirst_def
        prefixLeadingDigit_def stripNonAlnum_def toUpperCase_def Let_def
        alnum_not_terminator Component_facts)
qed

subsection \<open>Determinism\<close>

lemma generateSingleComponent_clock:
  "map_sum id (map_prod eraseGenerationTime id) (generateSingleComponent ns this clock1 t node nm) =
   map_sum id (map_prod eraseGenerationTime id) (generateSingleComponent ns this clock2 t node nm)"
  by (simp add: generateSingleComponent_def Let_def eraseGenerationTime_def generateMetadata_def
      split: sum.splits)

lemma generateDeclared_clock:
  "map eraseGenerationTime comps1 = map eraseGenerationTime comps2 \<Longrightarrow>
   observableState (generateDeclared ns this clock1 entries (comps1, t)) =
   observableState (generateDeclared ns this clock2 entries (comps2, t))"
proof (induction entries arbitrary: comps1 comps2 t)
  case Nil
  then show ?case by (simp add: observableState_def)
next
  case (Cons entry entries)
  obtain k component where entry: "entry = (k, component)" by (cases entry)
  show ?case
  proof (cases "findNodeById this (key component)")
    case None
    then show ?thesis using Cons entry by simp
  next
    case (Some node)
    note single = generateSingleComponent_clock [of ns this clock1 t node "fc_name component" clock2]
    show ?thesis
    proof (cases "generateSingleComponent ns this clock1 t node (fc_name component)")
      case (Inl e)
      then show ?thesis using single Some entry
        by (cases "generateSingleComponent ns this clock2 t node (fc_name component)")
          (auto simp: observableState_def)
    next
      case (Inr r1)
      then obtain r2 where r2: "generateSingleComponent ns this clock2 t node (fc_name component) = Inr r2"
        and eq: "map_prod eraseGenerationTime id r1 = map_prod eraseGenerationTime id r2"
        using single
        by (cases "generateSingleComponent ns this clock2 t node (fc_name component)") auto
      obtain g1 t1 where r1: "r1 = (g1, t1)" by (cases r1)
      obtain g2 t2 where r2': "r2 = (g2, t2)" by (cases r2)
      from eq r1 r2' have g: "eraseGenerationTime g1 = eraseGenerationTime g2" and t: "t1 = t2"
        by simp_all
      have "map eraseGenerationTime (comps1 @ [g1]) = map eraseGenerationTime (comps2 @ [g2])"
        using Cons.prems g by simp
      from Cons.IH [OF this, of t1] show ?thesis
        using Some entry Inr r2 r1 r2' t by simp
    qed
  qed
qed

lemma generateFrames_clock:
  "map eraseGenerationTime comps1 = map eraseGenerationTime comps2 \<Longrightarrow>
   observableState (generateFrames ns this clock1 frames (comps1, t)) =
   observableState (generateFrames ns this clock2 frames (comps2, t))"
proof (induction frames arbitrary: comps1 comps2 t)
  case Nil
  then show ?case by (simp add: observableState_def)
next
  case (Cons frame frames)
  note single = generateSingleComponent_clock [of ns this clock1 t frame "node_name (attrs frame)" clock2]
  show ?case
  proof (cases "generateSingleComponent ns this clock1 t frame (node_name (attrs frame))")
    case (Inl e)
    then show ?thesis using single
      by (cases "generateSingleComponent ns this clock2 t frame (node_name (attrs frame))")
        (auto simp: observableState_def)
  next
    case (Inr r1)
    then obtain r2 where r2: "generateSingleComponent ns this clock2 t frame (node_name (attrs frame)) = Inr r2"
      and eq: "map_prod eraseGenerationTime id r1 = map_prod eraseGenerationTime id r2"
      using single
      by (cases "generateSingleComponent ns this clock2 t frame (node_name (attrs frame))") auto
    obtain g1 t1 where r1: "r1 = (g1, t1)" by (cases r1)
    obtain g2 t2 where r2': "r2 = (g2, t2)" by (cases r2)
    from eq r1 r2' have g: "eraseGenerationTime g1 = eraseGenerationTime g2" and t: "t1 = t2"
      by simp_all
    have "map eraseGenerationTime (comps1 @ [g1]) = map eraseGenerationTime (comps2 @ [g2])"
      using Cons.prems g by simp
    from Cons.IH [OF this, of t1] show ?thesis
      using Inr r2 r1 r2' t by simp
  qed
qed

lemma generateComponents_clock:
  "observable (generateComponents ns this clock1) = observable (generateComponents ns this clock2)"
proof -
  let ?entries = "case components (figmaData this) of None \<Rightarrow> [] | Some es \<Rightarrow> es"
  let ?d1 = "generateDeclared ns this clock1 ?entries ([], 0)"
  let ?d2 = "generateDeclared ns this clock2 ?entries ([], 0)"
  have d: "observableState ?d1 = observableState ?d2"
    by (rule generateDeclared_clock) simp
  show ?thesis
  proof (cases ?d1)
    case (Inl e)
    then show ?thesis using d
      by (cases ?d2) (auto simp: generateComponents_def observable_def observableState_def)
  next
    case (Inr st1)
    then obtain st2 where st2: "?d2 = Inr st2"
      and eq: "map_prod (map eraseGenerationTime) id st1 = map_prod (map eraseGenerationTime) id st2"
      using d by (cases ?d2) (auto simp: observableState_def)
    obtain c1 t1 where s1: "st1 = (c1, t1)" by (cases st1)
    obtain c2 t2 where s2: "st2 = (c2, t2)" by (cases st2)
    from eq s1 s2 have c: "map eraseGenerationTime c1 = map eraseGenerationTime c2" and t: "t1 = t2"
      by simp_all
    then have len: "length c1 = length c2"
      by (metis length_map)
    note f = generateFrames_clock [OF c, of ns this clock1 "findMainFrames (document (figmaData this))" t1 clock2]
    show ?thesis
    proof (cases "length c1 = 0")
      case True
      then show ?thesis using Inr st2 s1 s2 len t f
        by (auto simp: generateComponents_def observable_def observableState_def
            split: sum.splits)
    next
      case False
      then have "c1 \<noteq> []" and "c2 \<noteq> []"
        using len by auto
      then show ?thesis using Inr st2 s1 s2 c
        by (simp add: generateComponents_def observable_def)
    qed
  qed
qed

text \<open>
  Claim C1. For a fixed document, fixed options and fixed custom code, two calls of
  \<^verbatim>\<open>generateComponents\<close> differ at most in \<open>generationTime\<close>: whatever the clock
  reads in the two calls, both fail with the same error or both return lists of
  components that are equal once \<open>generationTime\<close> is erased (id, name, jsx, css,
  typescript, accessibility, responsive and the other metadata fields agree).
\<close>

theorem generateComponents_deterministic:
  "observable (generateComponents ns (setCustomCode (new_AdvancedCodeGenerator fd opts) cc) clock1) =
   observable (generateComponents ns (setCustomCode (new_AdvancedCodeGenerator fd opts) cc) clock2)"
  by (rule generateComponents_clock)

subsection \<open>The accessibility report reads the node's own properties\<close>

text \<open>
  Claim C9. The accessibility analysis reads the node's own type, name and fills and
  nothing of its children: two nodes that agree on these three properties get the same
  report (score, issues, suggestions and compliance tier), whatever their subtrees are.
\<close>

theorem analyzeAccessibility_own_fields:
  assumes "node_type (attrs n1) = node_type (attrs n2)"
    and "node_name (attrs n1) = node_name (attrs n2)"
    and "fills (attrs n1) = fills (attrs n2)"
  shows "analyzeAccessibility n1 = analyzeAccessibility n2"
  by (simp only: analyzeAccessibility_def analyzeAccessibilityWith_def isImage_def
      isInteractiveElement_def calculateContrastRatio_def assms)

theorem analyzeAccessibility_own_fields_witness:
  "children labelNode \<noteq> children (FigmaNode (attrs labelNode) (Some [labelNode])) \<and>
   analyzeAccessibility labelNode =
     analyzeAccessibility (FigmaNode (attrs labelNode) (Some [labelNode]))"
  using analyzeAccessibility_own_fields [of labelNode "FigmaNode (attrs labelNode) (Some [labelNode])"]
  by (simp add: labelNode_def)

subsection \<open>A spacing, padding or corner radius of zero\<close>

lemma whenTruthy_zero: "whenTruthy (Some 0) f = []" "whenTruthy None f = []"
  by (simp_all add: whenTruthy_def)

lemma list_ex_whenTruthy:
  "(\<And>y. \<not> list_ex P (f y)) \<Longrightarrow> list_ex P (whenTruthy v f) = False"
  by (simp add: whenTruthy_def split: option.splits)

lemma colorToTailwind_other_prefix: "\<not> prefix (classPrefix x) (colorToTailwind c)"
  by (cases x) (simp_all add: colorToTailwind_def Let_def)

lemma borderRadiusToTailwind_other_prefix:
  "\<not> prefix ''gap-'' (borderRadiusToTailwind ns r)"
  "\<not> prefix ''pl-'' (borderRadiusToTailwind ns r)"
  "\<not> prefix ''pr-'' (borderRadiusToTailwind ns r)"
  "\<not> prefix ''pt-'' (borderRadiusToTailwind ns r)"
  "\<not> prefix ''pb-'' (borderRadiusToTailwind ns r)"
  by (simp_all add: borderRadiusToTailwind_def)

lemma layout_classes_other_prefix:
  "\<not> list_ex (prefix (classPrefix x))
       (if m = Some ''HORIZONTAL'' then [''flex'', ''flex-row'']
        else if m = Some ''VERTICAL'' then [''flex'', ''flex-col''] else [])"
  by (cases x) simp_all

lemma box_classes_other_prefix:
  "\<not> list_ex (prefix (classPrefix x))
       (case b of None \<Rightarrow> []
        | Some box \<Rightarrow> [''w-['' @ ns (width box) @ ''px]'', ''h-['' @ ns (height box) @ ''px]''])"
  by (cases x; cases b) simp_all

lemma color_classes_other_prefix:
  "\<not> list_ex (prefix (classPrefix x))
       (case c of None \<Rightarrow> [] | Some color \<Rightarrow> [colorToTailwind color])"
  by (cases c) (simp_all add: colorToTailwind_other_prefix)

lemma zero_no_class_token:
  "\<not> list_ex (prefix (classPrefix x)) (tailwindClassList ns (FigmaNode (setAttr x (Some 0) a) cs))"
  using layout_classes_other_prefix [where x = x and m = "layoutMode a"]
    box_classes_other_prefix [where x = x and b = "absoluteBoundingBox a" and ns = ns]
    color_classes_other_prefix [where x = x and c = "backgroundColor a"]
  by (cases x) (simp_all add: tailwindClassList_def whenTruthy_zero list_ex_whenTruthy
      borderRadiusToTailwind_other_prefix)

lemma zero_no_style_entry:
  "map_of (extractAllStyles ns (FigmaNode (setAttr x (Some 0) a) cs)) (styleKey x) = None"
  "map_of (CodeGenerator_extractStyles ns (FigmaNode (setAttr x (Some 0) a) cs)) (styleKey x) = None"
  by (cases x; simp add: extractAllStyles_def CodeGenerator_extractStyles_def whenTruthy_def
      split: option.splits)+

text \<open>
  Claim C10. For each of the item spacing, the four paddings and the corner radius, a node
  that has the property with the value 0 gets the same utility classes and the same style
  entries as the node without the property (\<^verbatim>\<open>generateTailwindClasses\<close>,
  \<^verbatim>\<open>extractAllStyles\<close> and \<^verbatim>\<open>extractStyles\<close> of the first class); no class token
  and no style entry of the property is emitted.
\<close>

theorem zero_is_absent:
  "tailwindClassList ns (FigmaNode (setAttr x (Some 0) a) cs) =
     tailwindClassList ns (FigmaNode (setAttr x None a) cs) \<and>
   generateTailwindClasses ns (FigmaNode (setAttr x (Some 0) a) cs) =
     generateTailwindClasses ns (FigmaNode (setAttr x None a) cs) \<and>
   extractAllStyles ns (FigmaNode (setAttr x (Some 0) a) cs) =
     extractAllStyles ns (FigmaNode (setAttr x None a) cs) \<and>
   CodeGenerator_extractStyles ns (FigmaNode (setAttr x (Some 0) a) cs) =
     CodeGenerator_extractStyles ns (FigmaNode (setAttr x None a) cs) \<and>
   \<not> list_ex (prefix (classPrefix x))
       (tailwindClassList ns (FigmaNode (setAttr x (Some 0) a) cs)) \<and>
   map_of (extractAllStyles ns (FigmaNode (setAttr x (Some 0) a) cs)) (styleKey x) = None \<and>
   map_of (CodeGenerator_extractStyles ns (FigmaNode (setAttr x (Some 0) a) cs)) (styleKey x) = None"
proof -
  have "tailwindClassList ns (FigmaNode (setAttr x (Some 0) a) cs) =
          tailwindClassList ns (FigmaNode (setAttr x None a) cs)"
    by (cases x) (simp_all add: tailwindClassList_def whenTruthy_def)
  moreover from this
  have "generateTailwindClasses ns (FigmaNode (setAttr x (Some 0) a) cs) =
          generateTailwindClasses ns (FigmaNode (setAttr x None a) cs)"
    by (simp add: generateTailwindClasses_def)
  moreover
  have "extractAllStyles ns (FigmaNode (setAttr x (Some 0) a) cs) =
          extractAllStyles ns (FigmaNode (setAttr x None a) cs)"
    by (cases x) (simp_all add: extractAllStyles_def whenTruthy_def split: option.splits)
  moreover
  have "CodeGenerator_extractStyles ns (FigmaNode (setAttr x (Some 0) a) cs) =
          CodeGenerator_extractStyles ns (FigmaNode (setAttr x None a) cs)"
    by (cases x) (simp_all add: CodeGenerator_extractStyles_def whenTruthy_def)
  ultimately show ?thesis
    using zero_no_class_token [of x ns a cs] zero_no_style_entry [of ns x a cs]
    by simp
qed

subsection \<open>The responsiveness report\<close>

lemma hasResponsiveDesign_with_constraints:
  assumes "constraints (attrs n) = Some c"
  shows "hasResponsiveDesign (analyzeResponsive n) =
           (layoutMode (attrs n) = Some ''HORIZONTAL'' \<or> layoutMode (attrs n) = Some ''VERTICAL'' \<or>
            horizontal c \<noteq> ''LEFT'' \<or> vertical c \<noteq> ''TOP'')"
    and "hasResponsiveDesign (CodeGenerator_analyzeResponsive n) =
           (layoutMode (attrs n) = Some ''HORIZONTAL'' \<or> layoutMode (attrs n) = Some ''VERTICAL'' \<or>
            horizontal c \<noteq> ''LEFT'' \<or> vertical c \<noteq> ''TOP'')"
  using assms by (auto simp: analyzeResponsive_def CodeGenerator_analyzeResponsive_def)

text \<open>
  Claim C5, where the code parts from it. A node without constraints is reported as
  responsive by \<^verbatim>\<open>analyzeResponsive\<close> of both classes, with or without a flow layout:
  \<^verbatim>\<open>node.constraints?.horizontal !== 'LEFT'\<close> holds when the constraints are absent.
  The lemma before it is the claim for a node that has constraints.
\<close>

theorem hasResponsiveDesign_without_constraints:
  assumes "constraints (attrs n) = None"
  shows "hasResponsiveDesign (analyzeResponsive n) = True \<and>
         hasResponsiveDesign (CodeGenerator_analyzeResponsive n) = True"
  using assms by (simp add: analyzeResponsive_def CodeGenerator_analyzeResponsive_def)

theorem hasResponsiveDesign_without_constraints_witness:
  "layoutMode (attrs (FigmaNode bareAttrs None)) = None \<and>
   constraints (attrs (FigmaNode bareAttrs None)) = None \<and>
   hasResponsiveDesign (analyzeResponsive (FigmaNode bareAttrs None)) = True \<and>
   hasResponsiveDesign (CodeGenerator_analyzeResponsive (FigmaNode bareAttrs None)) = True"
proof -
  have absent: "constraints (attrs (FigmaNode bareAttrs None)) = None"
    by (simp add: bareAttrs_def)
  from hasResponsiveDesign_without_constraints [OF absent] absent show ?thesis
    by (simp add: bareAttrs_def)
qed

subsection \<open>The contrast check\<close>

lemma low_contrast_warning:
  assumes "node_type (attrs n) = ''TEXT''" and "contrast n < 9 / 2"
  shows "issues (analyzeAccessibilityWith contrast n) =
           issues (analyzeAccessibilityWith (\<lambda>_. 9 / 2) n) @
           [\<lparr>issue_type = IssueWarning, message = ''Low text contrast'',
             element = node_name (attrs n),
             issue_fix = ''Increase contrast between text and background''\<rparr>]"
    and "score (analyzeAccessibilityWith contrast n) =
           score (analyzeAccessibilityWith (\<lambda>_. 9 / 2) n) - 10"
  using assms by (simp_all add: analyzeAccessibilityWith_def Let_def)

lemma no_low_contrast:
  "issues (analyzeAccessibility n) = issues (analyzeAccessibilityWith (\<lambda>_. 9 / 2) n)"
  "list_all (\<lambda>i. issue_type i \<noteq> IssueWarning) (issues (analyzeAccessibility n))"
  by (simp_all add: analyzeAccessibility_def analyzeAccessibilityWith_def calculateContrastRatio_def Let_def)

text \<open>
  Claim C6, at the input where the code parts from it. For a text node whose contrast
  estimate is not below 4.5 (the estimate is the constant 4.5), \<^verbatim>\<open>analyzeAccessibility\<close> of
  \<^verbatim>\<open>AdvancedCodeGenerator\<close> appends no suggestion; the method of the first class appends
  the suggestion to verify the contrast. The two lemmas before it are the first half of the
  claim: a contrast estimate below 4.5 adds one warning and takes 10 points, and with the
  constant estimate no warning is ever emitted.
\<close>

theorem text_node_gets_no_suggestion:
  "node_type (attrs labelNode) = ''TEXT'' \<and>
   analyzeAccessibility labelNode =
     \<lparr>score = 100, issues = [], suggestions = [], wcagCompliance = WcagAA\<rparr> \<and>
   suggestions (CodeGenerator_analyzeAccessibility labelNode) =
     [''Verify text contrast meets WCAG AA standards'']"
  by code_simp

text \<open>
  Claim C4. \<^verbatim>\<open>sanitizeComponentName\<close> of \<^verbatim>\<open>AdvancedCodeGenerator\<close> is the function the
  specification words, on every string. \<^verbatim>\<open>sanitizeComponentName\<close> of the first class has
  no default: where nothing is left after stripping, it returns the empty string.
\<close>

theorem CodeGenerator_sanitize_empty:
  "(\<forall>s. sanitizeComponentName s = sanitize_spec s) \<and>
   sanitize_spec ''---'' = ''Component'' \<and>
   CodeGenerator_sanitizeComponentName ''---'' = []"
proof -
  have "sanitize_spec ''---'' = ''Component''" "CodeGenerator_sanitizeComponentName ''---'' = []"
    by code_simp+
  then show ?thesis
    by (simp add: sanitize_refines_spec)
qed

subsection \<open>Spacing steps\<close>

lemma Math_round_quarter_le:
  "(Math_round (px / 4) \<le> 0) = (px < 2)" "(Math_round (px / 4) \<le> 96) = (px < 386)"
  unfolding Math_round_def floor_le_iff by auto

lemma Math_round_nearest:
  "\<bar>of_int (Math_round x) - x\<bar> \<le> 1 / 2" "x - 1 / 2 < of_int (Math_round x)"
  unfolding Math_round_def by linarith+

text \<open>
  Claim C7, amended. For a positive item spacing or padding \<open>px\<close>, the class token carries
  \<^verbatim>\<open>Math.round(px / 4)\<close>, the integer nearest to \<open>px / 4\<close> (a half goes up), which is
  printed as 0 below 2 pixels; the bracketed value \<^verbatim>\<open>[pxpx]\<close> is used exactly when the
  rounded step exceeds 96, that is from 386 pixels on.
\<close>

theorem pxToTailwindSpacing_rounds:
  assumes "0 < px"
  shows "pxToTailwindSpacing ns px =
           (if px < 2 then ''0''
            else if px < 386 then ns (of_int (Math_round (px / 4)))
            else ''['' @ ns px @ ''px]'') \<and>
         \<bar>of_int (Math_round (px / 4)) - px / 4\<bar> \<le> 1 / 2 \<and>
         (itemSpacing (attrs node) = Some px \<longrightarrow>
            list_ex (\<lambda>c. c = ''gap-'' @ pxToTailwindSpacing ns px) (tailwindClassList ns node)) \<and>
         (paddingLeft (attrs node) = Some px \<longrightarrow>
            list_ex (\<lambda>c. c = ''pl-'' @ pxToTailwindSpacing ns px) (tailwindClassList ns node)) \<and>
         (paddingRight (attrs node) = Some px \<longrightarrow>
            list_ex (\<lambda>c. c = ''pr-'' @ pxToTailwindSpacing ns px) (tailwindClassList ns node)) \<and>
         (paddingTop (attrs node) = Some px \<longrightarrow>
            list_ex (\<lambda>c. c = ''pt-'' @ pxToTailwindSpacing ns px) (tailwindClassList ns node)) \<and>
         (paddingBottom (attrs node) = Some px \<longrightarrow>
            list_ex (\<lambda>c. c = ''pb-'' @ pxToTailwindSpacing ns px) (tailwindClassList ns node))"
proof -
  have "pxToTailwindSpacing ns px =
           (if px < 2 then ''0''
            else if px < 386 then ns (of_int (Math_round (px / 4)))
            else ''['' @ ns px @ ''px]'')"
    by (simp add: pxToTailwindSpacing_def Let_def Math_round_quarter_le)
  moreover have "\<bar>of_int (Math_round (px / 4)) - px / 4\<bar> \<le> 1 / 2"
    by (rule Math_round_nearest)
  moreover have "whenTruthy (Some px) f = f px" for f :: "rat \<Rightarrow> string list"
    using assms by (simp add: whenTruthy_def)
  then have "itemSpacing (attrs node) = Some px \<longrightarrow>
            list_ex (\<lambda>c. c = ''gap-'' @ pxToTailwindSpacing ns px) (tailwindClassList ns node)"
    "paddingLeft (attrs node) = Some px \<longrightarrow>
            list_ex (\<lambda>c. c = ''pl-'' @ pxToTailwindSpacing ns px) (tailwindClassList ns node)"
    "paddingRight (attrs node) = Some px \<longrightarrow>
            list_ex (\<lambda>c. c = ''pr-'' @ pxToTailwindSpacing ns px) (tailwindClassList ns node)"
    "paddingTop (attrs node) = Some px \<longrightarrow>
            list_ex (\<lambda>c. c = ''pt-'' @ pxToTailwindSpacing ns px) (tailwindClassList ns node)"
    "paddingBottom (attrs node) = Some px \<longrightarrow>
            list_ex (\<lambda>c. c = ''pb-'' @ pxToTailwindSpacing ns px) (tailwindClassList ns node)"
    by (simp_all add: tailwindClassList_def)
  ultimately show ?thesis by blast
qed

text \<open>
  Claim C7 as stated fails: 6 pixels give the step 2, not the floor 1 of 6 / 4, and 385
  pixels give the step 96 although 385 / 4 exceeds 96.
\<close>

theorem spacing_is_rounded_not_floored:
  "tailwindClassList integralToString (FigmaNode (bareAttrs\<lparr>itemSpacing := Some 6\<rparr>) None) = [''gap-2''] \<and>
   integralToString (of_int \<lfloor>6 / 4 :: rat\<rfloor>) = ''1'' \<and>
   tailwindClassList integralToString (FigmaNode (bareAttrs\<lparr>paddingLeft := Some 385\<rparr>) None) = [''pl-96''] \<and>
   (96 :: rat) < 385 / 4"
  by code_simp

theorem pxToTailwindSpacing_rounds_witness:
  "(0::rat) < 386 \<and>
   itemSpacing (attrs (FigmaNode (bareAttrs\<lparr>itemSpacing := Some 386\<rparr>) None)) = Some 386 \<and>
   pxToTailwindSpacing integralToString 386 = ''[386px]'' \<and>
   list_ex (\<lambda>c. c = ''gap-[386px]'')
     (tailwindClassList integralToString (FigmaNode (bareAttrs\<lparr>itemSpacing := Some 386\<rparr>) None))"
proof -
  let ?node = "FigmaNode (bareAttrs\<lparr>itemSpacing := Some 386\<rparr>) None"
  have digits: "integralToString 386 = ''386''"
    by code_simp
  have pos: "(0::rat) < 386"
    by simp
  have spacing: "itemSpacing (attrs ?node) = Some 386"
    by simp
  note rounds = pxToTailwindSpacing_rounds [OF pos, of integralToString ?node]
  from rounds have px: "pxToTailwindSpacing integralToString 386 = ''[386px]''"
    by (simp add: digits)
  from rounds spacing
  have "list_ex (\<lambda>c. c = ''gap-'' @ pxToTailwindSpacing integralToString 386)
          (tailwindClassList integralToString ?node)"
    by blast
  with px pos spacing show ?thesis
    by simp
qed

subsection \<open>What the generation of one component depends on\<close>

lemma generateClassName_same:
  "sameConfiguration this this' \<Longrightarrow> generateClassName ns this' node = generateClassName ns this node"
  by (simp add: sameConfiguration_def generateClassName_def)

lemma generateInlineStyles_same:
  "sameConfiguration this this' \<Longrightarrow>
   generateInlineStyles ns this' node = generateInlineStyles ns this node"
  by (simp add: sameConfiguration_def generateInlineStyles_def)

lemma generateChildren_same:
  "sameConfiguration this this' \<Longrightarrow> generateChildren ns this' node = generateChildren ns this node"
proof (induction ns this node rule: generateChildren.induct)
  case (1 ns this a cs)
  show ?case
  proof (cases cs)
    case None
    then show ?thesis by simp
  next
    case (Some l)
    have "generateChildren ns this' child = generateChildren ns this child" if "child \<in> set l" for child
      using "1.IH" [OF Some _ that] "1.prems" that Some by (cases "length l = 0") auto
    then show ?thesis using Some "1.prems"
      by (simp add: generateClassName_same generateInlineStyles_same cong: map_cong)
  qed
qed

lemma generateJSX_same:
  "sameConfiguration this this' \<Longrightarrow> generateJSX ns this' node nm = generateJSX ns this node nm"
  by (simp add: generateJSX_def generateChildren_same generateClassName_same
      generateInlineStyles_same) (simp add: sameConfiguration_def Let_def)

lemma generateCSS_same:
  "sameConfiguration this this' \<Longrightarrow> generateCSS ns this' node nm = generateCSS ns this node nm"
  by (auto simp: sameConfiguration_def generateCSS_def generateCSSModules_def generatePlainCSS_def
      Let_def)

lemma generateSingleComponent_same:
  "sameConfiguration this this' \<Longrightarrow>
   generateSingleComponent ns this' clock t node nm = generateSingleComponent ns this clock t node nm"
  by (simp add: generateSingleComponent_def generateJSX_same generateCSS_same generateMetadata_def
      extractDependencies_def Let_def split: sum.splits) (simp add: sameConfiguration_def)

lemma findNodeById_same:
  "document (figmaData this') = document (figmaData this) \<Longrightarrow>
   findNodeById this' ident = findNodeById this ident"
  by (simp add: findNodeById_def)

lemma generateDeclared_same:
  assumes "sameConfiguration this this'"
    and "document (figmaData this') = document (figmaData this)"
  shows "generateDeclared ns this' clock es st = generateDeclared ns this clock es st"
proof (induction es arbitrary: st)
  case Nil
  show ?case by simp
next
  case (Cons entry es)
  obtain k component where entry: "entry = (k, component)" by (cases entry)
  obtain comps t where st: "st = (comps, t)" by (cases st)
  show ?case
    using Cons.IH
    by (simp add: entry st findNodeById_same [OF assms(2)]
        generateSingleComponent_same [OF assms(1)] split: option.splits sum.splits)
qed

lemma generateFrames_same:
  assumes "sameConfiguration this this'"
  shows "generateFrames ns this' clock frames st = generateFrames ns this clock frames st"
proof (induction frames arbitrary: st)
  case Nil
  show ?case by simp
next
  case (Cons frame frames)
  obtain comps t where st: "st = (comps, t)" by (cases st)
  show ?case
    using Cons.IH
    by (simp add: st generateSingleComponent_same [OF assms] split: sum.splits)
qed

lemma generateDeclared_skips_unresolved:
  "generateDeclared ns this clock (filter (resolves this) es) st =
   generateDeclared ns this clock es st"
proof (induction es arbitrary: st)
  case Nil
  show ?case by simp
next
  case (Cons entry es)
  obtain k component where entry: "entry = (k, component)" by (cases entry)
  obtain comps t where st: "st = (comps, t)" by (cases st)
  show ?case
  proof (cases "findNodeById this (key component)")
    case None
    then have "\<not> resolves this entry"
      by (simp add: resolves_def entry)
    then show ?thesis
      using None by (simp add: Cons.IH entry st)
  next
    case (Some node)
    then have "resolves this entry"
      by (simp add: resolves_def entry)
    then show ?thesis
      using Some by (simp add: Cons.IH entry st split: sum.splits)
  qed
qed

lemma generateSingleComponent_react:
  assumes "framework (options this) = ''react''"
  shows "\<exists>g. generateSingleComponent ns this clock t node nm = Inr (g, t + 2) \<and>
             gc_id g = node_id (attrs node) \<and> gc_name g = sanitizeComponentName nm"
  using assms by (simp add: generateSingleComponent_def generateJSX_def Let_def)

lemma generateDeclared_react:
  assumes "framework (options this) = ''react''"
  shows "\<exists>gs t'. generateDeclared ns this clock es (comps, t) = Inr (comps @ gs, t') \<and>
           map gc_id gs = map (\<lambda>(node, component). node_id (attrs node)) (resolvedIn this es) \<and>
           map gc_name gs =
             map (\<lambda>(node, component). sanitizeComponentName (fc_name component))
               (resolvedIn this es)"
proof (induction es arbitrary: comps t)
  case Nil
  show ?case by (simp add: resolvedIn_def)
next
  case (Cons entry es)
  obtain k component where entry: "entry = (k, component)" by (cases entry)
  show ?case
  proof (cases "findNodeById this (key component)")
    case None
    then show ?thesis
      using Cons.IH [of comps t] by (simp add: entry resolvedIn_def)
  next
    case (Some node)
    obtain g where g: "generateSingleComponent ns this clock t node (fc_name component) = Inr (g, t + 2)"
      "gc_id g = node_id (attrs node)" "gc_name g = sanitizeComponentName (fc_name component)"
      using generateSingleComponent_react [OF assms] by blast
    obtain gs t' where gs:
      "generateDeclared ns this clock es (comps @ [g], t + 2) = Inr ((comps @ [g]) @ gs, t')"
      "map gc_id gs = map (\<lambda>(node, component). node_id (attrs node)) (resolvedIn this es)"
      "map gc_name gs =
         map (\<lambda>(node, component). sanitizeComponentName (fc_name component)) (resolvedIn this es)"
      using Cons.IH [of "comps @ [g]" "t + 2"] by blast
    have "generateDeclared ns this clock (entry # es) (comps, t) = Inr (comps @ (g # gs), t')"
      using Some g gs by (simp add: entry)
    moreover have "map gc_id (g # gs) =
        map (\<lambda>(node, component). node_id (attrs node)) (resolvedIn this (entry # es))"
      using Some g gs by (simp add: entry resolvedIn_def)
    moreover have "map gc_name (g # gs) =
        map (\<lambda>(node, component). sanitizeComponentName (fc_name component))
          (resolvedIn this (entry # es))"
      using Some g gs by (simp add: entry resolvedIn_def)
    ultimately show ?thesis by blast
  qed
qed

lemma generateFrames_react:
  assumes "framework (options this) = ''react''"
  shows "\<exists>gs t'. generateFrames ns this clock frames (comps, t) = Inr (comps @ gs, t') \<and>
           map gc_id gs = map (\<lambda>f. node_id (attrs f)) frames \<and>
           map gc_name gs = map (\<lambda>f. sanitizeComponentName (node_name (attrs f))) frames"
proof (induction frames arbitrary: comps t)
  case Nil
  show ?case by simp
next
  case (Cons frame frames)
  obtain g where g: "generateSingleComponent ns this clock t frame (node_name (attrs frame)) = Inr (g, t + 2)"
    "gc_id g = node_id (attrs frame)" "gc_name g = sanitizeComponentName (node_name (attrs frame))"
    using generateSingleComponent_react [OF assms] by blast
  obtain gs t' where gs: "generateFrames ns this clock frames (comps @ [g], t + 2) = Inr ((comps @ [g]) @ gs, t')"
    "map gc_id gs = map (\<lambda>f. node_id (attrs f)) frames"
    "map gc_name gs = map (\<lambda>f. sanitizeComponentName (node_name (attrs f))) frames"
    using Cons.IH [of "comps @ [g]" "t + 2"] by blast
  have "generateFrames ns this clock (frame # frames) (comps, t) = Inr (comps @ (g # gs), t')"
    using g gs by simp
  moreover have "map gc_id (g # gs) = map (\<lambda>f. node_id (attrs f)) (frame # frames)"
    "map gc_name (g # gs) = map (\<lambda>f. sanitizeComponentName (node_name (attrs f))) (frame # frames)"
    using g gs by simp_all
  ultimately show ?case by blast
qed

lemma generateComponents_same:
  assumes "sameConfiguration this this'"
    and "document (figmaData this') = document (figmaData this)"
    and "declaredEntries this' = declaredEntries this"
  shows "generateComponents ns this' clock = generateComponents ns this clock"
  using assms(2,3)
  by (simp add: generateComponents_def declaredEntries_def generateDeclared_same [OF assms(1,2)]
      generateFrames_same [OF assms(1)] split: sum.splits prod.splits)

lemma generateComponents_react:
  assumes "framework (options this) = ''react''"
  shows "\<exists>arts. generateComponents ns this clock = Inr arts \<and>
           (if resolvedComponents this = []
            then map gc_id arts =
                   map (\<lambda>f. node_id (attrs f)) (findMainFrames (document (figmaData this))) \<and>
                 map gc_name arts =
                   map (\<lambda>f. sanitizeComponentName (node_name (attrs f)))
                     (findMainFrames (document (figmaData this)))
            else map gc_id arts =
                   map (\<lambda>(node, component). node_id (attrs node)) (resolvedComponents this) \<and>
                 map gc_name arts =
                   map (\<lambda>(node, component). sanitizeComponentName (fc_name component))
                     (resolvedComponents this))"
proof -
  obtain gs t' where gs:
    "generateDeclared ns this clock (declaredEntries this) ([], 0) = Inr ([] @ gs, t')"
    "map gc_id gs = map (\<lambda>(node, component). node_id (attrs node)) (resolvedComponents this)"
    "map gc_name gs =
       map (\<lambda>(node, component). sanitizeComponentName (fc_name component)) (resolvedComponents this)"
    using generateDeclared_react [OF assms, of ns clock "declaredEntries this" "[]" 0]
    unfolding resolvedComponents_def by blast
  show ?thesis
  proof (cases "resolvedComponents this = []")
    case True
    with gs(2) have empty: "gs = []" by simp
    obtain fs t'' where fs:
      "generateFrames ns this clock (findMainFrames (document (figmaData this))) ([], t') =
         Inr ([] @ fs, t'')"
      "map gc_id fs = map (\<lambda>f. node_id (attrs f)) (findMainFrames (document (figmaData this)))"
      "map gc_name fs =
         map (\<lambda>f. sanitizeComponentName (node_name (attrs f)))
           (findMainFrames (document (figmaData this)))"
      using generateFrames_react [OF assms] by blast
    have "generateComponents ns this clock = Inr fs"
      using gs(1) fs(1) empty by (simp add: generateComponents_def declaredEntries_def)
    then show ?thesis using True fs by simp
  next
    case False
    with gs(2) have "gs \<noteq> []" by auto
    then have "generateComponents ns this clock = Inr gs"
      using gs(1) by (simp add: generateComponents_def declaredEntries_def)
    then show ?thesis using False gs by simp
  qed
qed

subsection \<open>Options are not validated\<close>

text \<open>
  Claim C2, amended. No method checks the options. With the framework \<^verbatim>\<open>react\<close>, a call
  whose styling is none of the four supported values does not fail: it returns what the
  call returns for \<^verbatim>\<open>plain-css\<close>.
\<close>

theorem unsupported_styling_is_plain_css:
  assumes "framework (options this) = ''react''"
    and "styling (options this) \<notin> set supportedStylings"
  shows "generateComponents ns this clock =
           generateComponents ns (withStyling ''plain-css'' this) clock \<and>
         \<not> isl (generateComponents ns this clock)"
proof -
  have "sameConfiguration this (withStyling ''plain-css'' this)"
    using assms(2) by (simp add: sameConfiguration_def withStyling_def supportedStylings_def)
  then have "generateComponents ns (withStyling ''plain-css'' this) clock =
             generateComponents ns this clock"
    by (rule generateComponents_same) (simp_all add: withStyling_def declaredEntries_def)
  moreover have "\<not> isl (generateComponents ns this clock)"
    using generateComponents_react [OF assms(1), of ns clock] by auto
  ultimately show ?thesis by simp
qed

theorem unsupported_styling_is_plain_css_witness:
  "framework (options (new_AdvancedCodeGenerator \<lparr>document = cardDocument, components = None\<rparr>
       (reactOptions\<lparr>styling := ''bootstrap''\<rparr>))) = ''react'' \<and>
   styling (options (new_AdvancedCodeGenerator \<lparr>document = cardDocument, components = None\<rparr>
       (reactOptions\<lparr>styling := ''bootstrap''\<rparr>))) \<notin> set supportedStylings \<and>
   generateComponents integralToString
     (new_AdvancedCodeGenerator \<lparr>document = cardDocument, components = None\<rparr>
       (reactOptions\<lparr>styling := ''bootstrap''\<rparr>)) (\<lambda>t. 0) =
   generateComponents integralToString
     (new_AdvancedCodeGenerator \<lparr>document = cardDocument, components = None\<rparr>
       (reactOptions\<lparr>styling := ''plain-css''\<rparr>)) (\<lambda>t. 0) \<and>
   \<not> isl (generateComponents integralToString
     (new_AdvancedCodeGenerator \<lparr>document = cardDocument, components = None\<rparr>
       (reactOptions\<lparr>styling := ''bootstrap''\<rparr>)) (\<lambda>t. 0))"
proof -
  let ?gen = "new_AdvancedCodeGenerator \<lparr>document = cardDocument, components = None\<rparr>
       (reactOptions\<lparr>styling := ''bootstrap''\<rparr>)"
  have react: "framework (options ?gen) = ''react''"
    by (simp add: new_AdvancedCodeGenerator_def reactOptions_def)
  have unsupported: "styling (options ?gen) \<notin> set supportedStylings"
    by (simp add: new_AdvancedCodeGenerator_def reactOptions_def supportedStylings_def)
  have plain: "withStyling ''plain-css'' ?gen =
      new_AdvancedCodeGenerator \<lparr>document = cardDocument, components = None\<rparr>
       (reactOptions\<lparr>styling := ''plain-css''\<rparr>)"
    by (simp add: withStyling_def new_AdvancedCodeGenerator_def)
  note inst = unsupported_styling_is_plain_css [OF react unsupported, of integralToString "\<lambda>t. 0"]
  from inst have same: "generateComponents integralToString ?gen (\<lambda>t. 0) =
      generateComponents integralToString (withStyling ''plain-css'' ?gen) (\<lambda>t. 0)"
    by (rule conjunct1)
  from inst have returns: "\<not> isl (generateComponents integralToString ?gen (\<lambda>t. 0))"
    by (rule conjunct2)
  from react unsupported same [unfolded plain] returns show ?thesis
    by (intro conjI)
qed

text \<open>
  Claim C2 as stated fails: with the styling \<^verbatim>\<open>bootstrap\<close>, which is not supported, the call
  raises no error and returns a component for the frame, styled as plain CSS.
\<close>

theorem unsupported_styling_is_accepted:
  "styling (reactOptions\<lparr>styling := ''bootstrap''\<rparr>) \<notin> set supportedStylings \<and>
   \<not> isl (generateComponents integralToString
     (new_AdvancedCodeGenerator \<lparr>document = cardDocument, components = None\<rparr>
       (reactOptions\<lparr>styling := ''bootstrap''\<rparr>)) (\<lambda>t. 0)) \<and>
   map gc_id (projr (generateComponents integralToString
     (new_AdvancedCodeGenerator \<lparr>document = cardDocument, components = None\<rparr>
       (reactOptions\<lparr>styling := ''bootstrap''\<rparr>)) (\<lambda>t. 0))) = [''1:1''] \<and>
   map gc_css (projr (generateComponents integralToString
     (new_AdvancedCodeGenerator \<lparr>document = cardDocument, components = None\<rparr>
       (reactOptions\<lparr>styling := ''bootstrap''\<rparr>)) (\<lambda>t. 0))) = [''.card1 {'' @ nl @ nl @ ''}'']"
  by code_simp

subsection \<open>Declared components that do not resolve\<close>

lemma generateComponents_entries:
  "generateComponents ns this clock =
     (case generateDeclared ns this clock (declaredEntries this) ([], 0) of
        Inl e \<Rightarrow> Inl e
      | Inr (comps, t) \<Rightarrow>
          if length comps = 0
          then (case generateFrames ns this clock (findMainFrames (document (figmaData this)))
                       (comps, t) of
                  Inl e \<Rightarrow> Inl e
                | Inr (comps', t') \<Rightarrow> Inr comps')
          else Inr comps)"
  by (simp add: generateComponents_def declaredEntries_def)

lemma generateSingleComponent_other:
  assumes "framework (options this) \<noteq> ''react''"
  shows "generateSingleComponent ns this clock t node nm = Inl (ReferenceError ''jsx is not defined'')"
  using assms by (simp add: generateSingleComponent_def generateJSX_def Let_def)

lemma generateDeclared_other:
  assumes "framework (options this) \<noteq> ''react''"
  shows "resolvedIn this es \<noteq> [] \<Longrightarrow>
         generateDeclared ns this clock es st = Inl (ReferenceError ''jsx is not defined'')"
proof (induction es arbitrary: st)
  case Nil
  then show ?case by (simp add: resolvedIn_def)
next
  case (Cons entry es)
  obtain k component where entry: "entry = (k, component)" by (cases entry)
  obtain comps t where st: "st = (comps, t)" by (cases st)
  show ?case
  proof (cases "findNodeById this (key component)")
    case None
    with Cons.prems have "resolvedIn this es \<noteq> []"
      by (simp add: resolvedIn_def entry)
    from Cons.IH [OF this] show ?thesis
      using None by (simp add: entry st)
  next
    case (Some node)
    then show ?thesis
      by (simp add: entry st generateSingleComponent_other [OF assms])
  qed
qed

lemma artifacts_of_resolved:
  assumes "map gc_id arts = map f rs" and "map gc_name arts = map h rs"
  shows "list_all (\<lambda>r. list_ex (\<lambda>g. gc_id g = f r \<and> gc_name g = h r) arts) rs"
proof -
  have len: "length arts = length rs"
    using assms(1) by (metis length_map)
  have "\<exists>g \<in> set arts. gc_id g = f r \<and> gc_name g = h r" if "r \<in> set rs" for r
  proof -
    from that obtain i where i: "i < length rs" "rs ! i = r"
      by (auto simp: in_set_conv_nth)
    have "gc_id (arts ! i) = f (rs ! i)"
      using assms(1) i(1) len by (metis nth_map)
    moreover have "gc_name (arts ! i) = h (rs ! i)"
      using assms(2) i(1) len by (metis nth_map)
    moreover have "arts ! i \<in> set arts"
      using i(1) len by simp
    ultimately show ?thesis using i(2) by blast
  qed
  then show ?thesis
    by (simp add: list_all_iff list_ex_iff)
qed

text \<open>
  Claim C8, and where the code parts from it. A declared component that does not resolve is
  skipped and changes nothing: the call returns what it returns for the document that
  declares only the components that resolve. With the framework \<^verbatim>\<open>react\<close> the call
  returns a list that has a component for each declared component that resolves, with the
  node's id and the sanitized declared name (and, when at least one resolves, these
  components only, in the order of declaration). With any other framework the call fails
  as soon as a declared component resolves: \<^verbatim>\<open>generateJSX\<close> ends in \<^verbatim>\<open>return jsx\<close>, and no
  \<^verbatim>\<open>jsx\<close> is declared.
\<close>

theorem unresolved_components_are_skipped:
  "generateComponents ns this clock =
     generateComponents ns
       (withComponents (filter (resolves this) (declaredEntries this)) this) clock \<and>
   (framework (options this) = ''react'' \<longrightarrow>
      (\<exists>arts. generateComponents ns this clock = Inr arts \<and>
         list_all (\<lambda>(node, component).
             list_ex (\<lambda>g. gc_id g = node_id (attrs node) \<and>
                          gc_name g = sanitizeComponentName (fc_name component)) arts)
           (resolvedComponents this) \<and>
         (resolvedComponents this \<noteq> [] \<longrightarrow>
            map gc_id arts =
              map (\<lambda>(node, component). node_id (attrs node)) (resolvedComponents this) \<and>
            map gc_name arts =
              map (\<lambda>(node, component). sanitizeComponentName (fc_name component))
                (resolvedComponents this)))) \<and>
   (framework (options this) \<noteq> ''react'' \<longrightarrow> resolvedComponents this \<noteq> [] \<longrightarrow>
      generateComponents ns this clock = Inl (ReferenceError ''jsx is not defined''))"
proof -
  let ?kept = "filter (resolves this) (declaredEntries this)"
  let ?gen = "withComponents ?kept this"
  let ?ident = "\<lambda>(node :: FigmaNode, component :: FigmaComponent). node_id (attrs node)"
  let ?name = "\<lambda>(node :: FigmaNode, component :: FigmaComponent).
                 sanitizeComponentName (fc_name component)"
  have same: "sameConfiguration this ?gen"
    by (simp add: sameConfiguration_def withComponents_def)
  have doc: "document (figmaData ?gen) = document (figmaData this)"
    by (simp add: withComponents_def)
  have "generateDeclared ns ?gen clock ?kept ([], 0) =
        generateDeclared ns this clock (declaredEntries this) ([], 0)"
    by (simp add: generateDeclared_same [OF same doc] generateDeclared_skips_unresolved)
  moreover have "declaredEntries ?gen = ?kept"
    by (simp add: withComponents_def declaredEntries_def)
  ultimately have skipped: "generateComponents ns this clock = generateComponents ns ?gen clock"
    by (simp add: generateComponents_entries generateFrames_same [OF same] doc
        split: sum.splits prod.splits)
  have react: "\<exists>arts. generateComponents ns this clock = Inr arts \<and>
         list_all (\<lambda>r. list_ex (\<lambda>g. gc_id g = ?ident r \<and> gc_name g = ?name r) arts)
           (resolvedComponents this) \<and>
         (resolvedComponents this \<noteq> [] \<longrightarrow>
            map gc_id arts = map ?ident (resolvedComponents this) \<and>
            map gc_name arts = map ?name (resolvedComponents this))"
    if isReact: "framework (options this) = ''react''"
  proof (cases "resolvedComponents this = []")
    case True
    then show ?thesis
      using generateComponents_react [OF isReact, of ns clock] by auto
  next
    case False
    then obtain arts where arts: "generateComponents ns this clock = Inr arts"
      "map gc_id arts = map ?ident (resolvedComponents this)"
      "map gc_name arts = map ?name (resolvedComponents this)"
      using generateComponents_react [OF isReact, of ns clock] by auto
    from artifacts_of_resolved [OF arts(2,3)] arts show ?thesis
      by blast
  qed
  have other: "generateComponents ns this clock = Inl (ReferenceError ''jsx is not defined'')"
    if "framework (options this) \<noteq> ''react''" and "resolvedComponents this \<noteq> []"
    using generateDeclared_other [OF that(1), of "declaredEntries this" ns clock "([], 0)"] that(2)
    by (simp add: generateComponents_entries resolvedComponents_def)
  have shape: "(\<lambda>r. list_ex (\<lambda>g. gc_id g = ?ident r \<and> gc_name g = ?name r) arts) =
      (\<lambda>(node, component).
             list_ex (\<lambda>g. gc_id g = node_id (attrs node) \<and>
                          gc_name g = sanitizeComponentName (fc_name component)) arts)" for arts
    by auto
  from skipped react other show ?thesis
    unfolding shape by blast
qed

theorem unresolved_components_are_skipped_witness:
  "framework (options (new_AdvancedCodeGenerator declaredData reactOptions)) = ''react'' \<and>
   filter (resolves (new_AdvancedCodeGenerator declaredData reactOptions))
     (declaredEntries (new_AdvancedCodeGenerator declaredData reactOptions)) =
     [(''b'', \<lparr>key = ''1:2'', fc_name = ''My label''\<rparr>)] \<and>
   \<not> isl (generateComponents integralToString
     (new_AdvancedCodeGenerator declaredData reactOptions) (\<lambda>t. 0)) \<and>
   map gc_id (projr (generateComponents integralToString
     (new_AdvancedCodeGenerator declaredData reactOptions) (\<lambda>t. 0))) = [''1:2''] \<and>
   map gc_name (projr (generateComponents integralToString
     (new_AdvancedCodeGenerator declaredData reactOptions) (\<lambda>t. 0))) = [''Mylabel''] \<and>
   framework (options (new_AdvancedCodeGenerator declaredData
     (reactOptions\<lparr>framework := ''vue''\<rparr>))) \<noteq> ''react'' \<and>
   resolvedComponents (new_AdvancedCodeGenerator declaredData
     (reactOptions\<lparr>framework := ''vue''\<rparr>)) =
     [(labelNode, \<lparr>key = ''1:2'', fc_name = ''My label''\<rparr>)] \<and>
   generateComponents integralToString
     (new_AdvancedCodeGenerator declaredData (reactOptions\<lparr>framework := ''vue''\<rparr>)) (\<lambda>t. 0) =
     Inl (ReferenceError ''jsx is not defined'')"
proof -
  let ?gen = "new_AdvancedCodeGenerator declaredData reactOptions"
  let ?vue = "new_AdvancedCodeGenerator declaredData (reactOptions\<lparr>framework := ''vue''\<rparr>)"
  have react: "framework (options ?gen) = ''react''"
    by (simp add: new_AdvancedCodeGenerator_def reactOptions_def)
  have kept: "filter (resolves ?gen) (declaredEntries ?gen) =
      [(''b'', \<lparr>key = ''1:2'', fc_name = ''My label''\<rparr>)]"
    by code_simp
  have resolved: "resolvedComponents ?gen = [(labelNode, \<lparr>key = ''1:2'', fc_name = ''My label''\<rparr>)]"
    by code_simp
  have name: "sanitizeComponentName ''My label'' = ''Mylabel''"
    by code_simp
  have ident: "node_id (attrs labelNode) = ''1:2''"
    by (simp add: labelNode_def)
  from unresolved_components_are_skipped [of integralToString ?gen "\<lambda>t. 0"] react
  obtain arts where arts: "generateComponents integralToString ?gen (\<lambda>t. 0) = Inr arts"
    "resolvedComponents ?gen \<noteq> [] \<longrightarrow>
            map gc_id arts =
              map (\<lambda>(node, component). node_id (attrs node)) (resolvedComponents ?gen) \<and>
            map gc_name arts =
              map (\<lambda>(node, component). sanitizeComponentName (fc_name component))
                (resolvedComponents ?gen)"
    by blast
  from arts(2) have listed: "map gc_id arts = [''1:2'']" "map gc_name arts = [''Mylabel'']"
    by (simp_all add: resolved name ident)
  have other: "framework (options ?vue) \<noteq> ''react''"
    by (simp add: new_AdvancedCodeGenerator_def reactOptions_def)
  have resolved_vue: "resolvedComponents ?vue =
      [(labelNode, \<lparr>key = ''1:2'', fc_name = ''My label''\<rparr>)]"
    by code_simp
  then have some: "resolvedComponents ?vue \<noteq> []"
    by simp
  from unresolved_components_are_skipped [of integralToString ?vue "\<lambda>t. 0"] other some
  have fails: "generateComponents integralToString ?vue (\<lambda>t. 0) =
      Inl (ReferenceError ''jsx is not defined'')"
    by blast
  from react kept arts(1) listed other resolved_vue fails show ?thesis
    by simp
qed

end
